theory Spec2Isabelle
  imports Complex_Main "HOL-Library.AList"
begin

section \<open>JavaScript values\<close>

text \<open>
  The three clients (MarkerArrayClient, OccupancyGridClient, OcTreeClient) are JavaScript
  classes. Object identities are references; the values that travel through option
  objects are JavaScript values, of which the code only ever tests the truthiness
  (\<open>a || b\<close>, \<open>if (a)\<close>, \<open>!a\<close>) or whether they are \<open>undefined\<close>.
\<close>

type_synonym ref = nat

datatype jsval =
    JUndefined
  | JNull
  | JBool bool
  | JNum real
  | JNaN
  | JStr string
  | JObj ref
  | JRec "(string \<times> jsval) list"
  | JArr "jsval list"

fun truthy :: "jsval \<Rightarrow> bool" where
  "truthy JUndefined = False"
| "truthy JNull = False"
| "truthy (JBool b) = b"
| "truthy (JNum x) = (x \<noteq> 0)"
| "truthy JNaN = False"
| "truthy (JStr s) = (s \<noteq> [])"
| "truthy (JObj r) = True"
| "truthy (JRec fs) = True"
| "truthy (JArr vs) = True"

text \<open>\<open>a || b\<close>: the left operand when it is truthy, the right one otherwise.\<close>

definition js_or :: "jsval \<Rightarrow> jsval \<Rightarrow> jsval" where
  "js_or a b = (if truthy a then a else b)"

text \<open>
  A handler either runs to its end or throws; a thrown exception keeps the mutations made
  before the throw.
\<close>

datatype 's outcome = Done 's | Threw string 's

fun state_of :: "'s outcome \<Rightarrow> 's" where
  "state_of (Done s) = s"
| "state_of (Threw e s) = s"

subsection \<open>Number to string\<close>

text \<open>
  \<open>message.ns + message.id\<close> concatenates a string and a number: the number is rendered
  in decimal, with a leading minus sign when negative (identifiers and action codes are
  32-bit integers on the wire, far below the magnitude where JavaScript switches to
  exponent notation).
\<close>

definition digit_char :: "nat \<Rightarrow> char" where
  "digit_char d = ''0123456789'' ! (d mod 10)"

function dec_nat :: "nat \<Rightarrow> string" where
  "dec_nat n = (if n < 10 then [digit_char n] else dec_nat (n div 10) @ [digit_char (n mod 10)])"
  by pat_completeness auto
termination
  by (relation "measure (\<lambda>n. n)") auto

declare dec_nat.simps [simp del]

definition number_to_string :: "int \<Rightarrow> string" where
  "number_to_string i = (if i < 0 then CHR ''-'' # dec_nat (nat (- i)) else dec_nat (nat i))"

definition is_num_char :: "char \<Rightarrow> bool" where
  "is_num_char c = (c \<in> set ''-0123456789'')"

text \<open>A namespace whose last character could not be part of a rendered number.\<close>

definition plain_ns :: "string \<Rightarrow> bool" where
  "plain_ns s = (s = [] \<or> \<not> is_num_char (last s))"

section \<open>Scene graph, events and transport\<close>

text \<open>
  Everything a client does to its collaborators is recorded in order in a trace: frame
  tracking subscribed and unsubscribed on a node, a disposal hook invoked, a child attached
  to or detached from a parent, an event emitted, a console diagnostic.
\<close>

datatype event =
    SubscribeTf ref string
  | UnsubscribeTf ref
  | Dispose ref
  | Attached ref ref
  | Detached ref ref
  | Emit string
  | ConsoleWarn string
  | ConsoleLog string

record scene =
  kids :: "ref \<Rightarrow> ref list"
  next_ref :: ref
  trace :: "event list"

definition log :: "event \<Rightarrow> 'a scene_scheme \<Rightarrow> 'a scene_scheme" where
  "log e s = s\<lparr>trace := trace s @ [e]\<rparr>"

text \<open>
  Modelled from the spec: the renderer's node type (THREE.Object3D, reached through the
  missing shims/three/core.js) "supporting add/remove of children". \<open>add\<close> appends the
  child to the parent's child list and refuses to add a node to itself; \<open>remove\<close> deletes
  the first occurrence of the child and does nothing when the child is not among the
  parent's children. Every node the clients add is freshly constructed, so it has no former
  parent to be taken from.
\<close>

definition obj_add :: "ref \<Rightarrow> ref \<Rightarrow> 'a scene_scheme \<Rightarrow> 'a scene_scheme" where
  "obj_add p c s =
     (if c = p then s
      else log (Attached p c) (s\<lparr>kids := (kids s)(p := kids s p @ [c])\<rparr>))"

definition obj_remove :: "ref \<Rightarrow> ref \<Rightarrow> 'a scene_scheme \<Rightarrow> 'a scene_scheme" where
  "obj_remove p c s =
     (if c \<in> set (kids s p)
      then log (Detached p c) (s\<lparr>kids := (kids s)(p := remove1 c (kids s p))\<rparr>)
      else s)"

text \<open>\<open>new\<close> of a scene object: a fresh reference with no children.\<close>

definition new_object :: "'a scene_scheme \<Rightarrow> ref \<times> 'a scene_scheme" where
  "new_object s =
     (next_ref s, s\<lparr>kids := (kids s)(next_ref s := []), next_ref := Suc (next_ref s)\<rparr>)"

text \<open>
  Modelled from the spec: the Scene Attachment (SceneNode, visualization/SceneNode.js is
  missing) "wraps a renderable object in a node that optionally tracks a named reference
  frame" and "exposes subscribe/unsubscribe for that tracking". Constructing it adds the
  wrapped object as its child and subscribes the node to its frame; \<open>unsubscribeTf\<close>
  cancels that tracking.
\<close>

definition new_SceneNode :: "string \<Rightarrow> ref \<Rightarrow> 'a scene_scheme \<Rightarrow> ref \<times> 'a scene_scheme" where
  "new_SceneNode frameID object s =
     (let (n, s1) = new_object s
      in (n, log (SubscribeTf n frameID) (obj_add n object s1)))"

definition unsubscribeTf :: "ref \<Rightarrow> 'a scene_scheme \<Rightarrow> 'a scene_scheme" where
  "unsubscribeTf n s = log (UnsubscribeTf n) s"

text \<open>
  Modelled from the spec: the transport subscription (ROSLIB.Topic, shims/roslib/ROSLIB.js
  is missing) "delivers one decoded message at a time to a registered callback" and "can be
  created, re-created, and torn down idempotently". A topic records whether its
  subscription is active; a message reaches the handler only while it is.
\<close>

record topic =
  t_name :: jsval
  t_messageType :: string
  t_compression :: jsval
  t_queue_length :: "nat option"
  t_subscribed :: bool

definition topic_subscribe :: "topic \<Rightarrow> topic" where
  "topic_subscribe t = t\<lparr>t_subscribed := True\<rparr>"

definition topic_unsubscribe :: "topic \<Rightarrow> topic" where
  "topic_unsubscribe t = t\<lparr>t_subscribed := False\<rparr>"

section \<open>Construction options and the state common to the clients\<close>

text \<open>
  The options object: every recognised key, \<open>JUndefined\<close> when the key is absent. The
  root object is a scene node or absent.
\<close>

record options =
  o_ros :: jsval
  o_topic :: jsval
  o_tfClient :: jsval
  o_rootObject :: "ref option"
  o_path :: jsval
  o_compression :: jsval
  o_continuous :: jsval
  o_offsetPose :: jsval
  o_color :: jsval
  o_opacity :: jsval
  o_colorMode :: jsval
  o_palette :: jsval
  o_paletteScale :: jsval
  o_voxelRenderMode :: jsval

definition no_options :: options where
  "no_options = \<lparr>o_ros = JUndefined, o_topic = JUndefined, o_tfClient = JUndefined,
     o_rootObject = None, o_path = JUndefined, o_compression = JUndefined,
     o_continuous = JUndefined, o_offsetPose = JUndefined, o_color = JUndefined,
     o_opacity = JUndefined, o_colorMode = JUndefined, o_palette = JUndefined,
     o_paletteScale = JUndefined, o_voxelRenderMode = JUndefined\<rparr>"

text \<open>\<open>options = options || {}\<close>\<close>

definition options_or_empty :: "options option \<Rightarrow> options" where
  "options_or_empty opts = (case opts of None \<Rightarrow> no_options | Some o' \<Rightarrow> o')"

record client = scene +
  ros :: jsval
  topicName :: jsval
  tfClient :: jsval
  rootObject :: ref
  rosTopic :: "topic option"

text \<open>
  \<open>unsubscribe\<close> has the same body in the three classes:
  \<open>if (this.rosTopic) { this.rosTopic.unsubscribe(); }\<close>. The topic stays recorded on the
  client; its subscription is cancelled.
\<close>

definition unsubscribe :: "'a client_scheme \<Rightarrow> 'a client_scheme" where
  "unsubscribe s =
     (case rosTopic s of
        None \<Rightarrow> s
      | Some t \<Rightarrow> s\<lparr>rosTopic := Some (topic_unsubscribe t)\<rparr>)"

text \<open>Whether a message handed to the transport reaches the client's handler.\<close>

definition listening :: "'a client_scheme \<Rightarrow> bool" where
  "listening s = (case rosTopic s of None \<Rightarrow> False | Some t \<Rightarrow> t_subscribed t)"

text \<open>\<open>options.rootObject || new THREE.Object3D()\<close>\<close>

definition root_or_new :: "ref option \<Rightarrow> scene \<Rightarrow> ref \<times> scene" where
  "root_or_new r sc = (case r of Some given \<Rightarrow> (given, sc) | None \<Rightarrow> new_object sc)"

section \<open>MarkerArrayClient\<close>

record marker_msg =
  msg_ns :: string
  msg_id :: int
  msg_action :: int
  msg_frame_id :: string
  msg_body :: nat

record marker_client = client +
  path :: jsval
  markers :: "(string \<times> ref) list"
  marker_data :: "ref \<rightharpoonup> marker_msg"

text \<open>
  The registry \<open>this.markers\<close> is a plain object used as a dictionary. Its key is
  \<open>message.ns + message.id\<close>. The rendered identifier ends in a decimal digit, so a key
  never names a property inherited from \<open>Object.prototype\<close>, and \<open>key in this.markers\<close>
  is a lookup among the object's own entries.
\<close>

definition marker_key :: "marker_msg \<Rightarrow> string" where
  "marker_key message = msg_ns message @ number_to_string (msg_id message)"

text \<open>
  \<open>for (var m in this.markers)\<close> visits the own keys: those that are canonical array
  indices in ascending numeric order, then the others in insertion order.
\<close>

definition index_value :: "string \<Rightarrow> int" where
  "index_value k = foldl (\<lambda>n c. 10 * n + (of_char c - 48)) 0 k"

definition is_array_index :: "string \<Rightarrow> bool" where
  "is_array_index k =
     (k \<noteq> [] \<and> (\<forall>c \<in> set k. c \<in> set ''0123456789'')
      \<and> (k = ''0'' \<or> hd k \<noteq> CHR ''0'') \<and> index_value k < 4294967295)"

definition own_keys :: "(string \<times> 'v) list \<Rightarrow> string list" where
  "own_keys al =
     sort_key index_value (filter is_array_index (map fst al))
     @ filter (\<lambda>k. \<not> is_array_index k) (map fst al)"

definition MarkerArrayClient_subscribe :: "marker_client \<Rightarrow> marker_client" where
  "MarkerArrayClient_subscribe s =
     (let s1 = unsubscribe s
      in s1\<lparr>rosTopic := Some (topic_subscribe
           \<lparr>t_name = topicName s1, t_messageType = ''visualization_msgs/MarkerArray'',
            t_compression = JStr ''png'', t_queue_length = None, t_subscribed = False\<rparr>)\<rparr>)"

definition MarkerArrayClient :: "scene \<Rightarrow> options option \<Rightarrow> marker_client" where
  "MarkerArrayClient sc opts =
     (let options = options_or_empty opts;
          (rootObj, sc1) = root_or_new (o_rootObject options) sc
      in MarkerArrayClient_subscribe
           \<lparr>kids = kids sc1, next_ref = next_ref sc1, trace = trace sc1,
            ros = o_ros options, topicName = o_topic options, tfClient = o_tfClient options,
            rootObject = rootObj, rosTopic = None,
            path = js_or (o_path options) (JStr ''/''),
            markers = [], marker_data = Map.empty\<rparr>)"

definition removeMarker :: "string \<Rightarrow> marker_client \<Rightarrow> marker_client" where
  "removeMarker key s =
     (case map_of (markers s) key of
        None \<Rightarrow> s
      | Some oldNode \<Rightarrow>
          (let s1 = unsubscribeTf oldNode s;
               s2 = obj_remove (rootObject s1) oldNode s1;
               s3 = foldl (\<lambda>st child. log (Dispose child) st) s2 (kids s2 oldNode)
           in s3\<lparr>markers := AList.delete key (markers s3)\<rparr>))"

text \<open>
  Modelled from the spec: the marker geometry builder (markers/Marker.js is missing).
  \<open>new Marker\<close> builds a renderable object from the directive; the object's \<open>update\<close>
  "reports that it cannot represent the new state" by returning false and otherwise takes
  over the directive's fields. Its verdict depends on what the marker shows and on the new
  directive, and is the parameter \<open>upd\<close> of the functions below.
\<close>

definition new_Marker :: "marker_msg \<Rightarrow> marker_client \<Rightarrow> ref \<times> marker_client" where
  "new_Marker message s =
     (let (m, s1) = new_object s
      in (m, s1\<lparr>marker_data := (marker_data s1)(m \<mapsto> message)\<rparr>))"

text \<open>The \<open>"ADD"\<close> block of \<open>processMessage\<close>.\<close>

definition addMarker :: "marker_msg \<Rightarrow> marker_client \<Rightarrow> marker_client" where
  "addMarker message s =
     (let (newMarker, s1) = new_Marker message s;
          (node, s2) = new_SceneNode (msg_frame_id message) newMarker s1;
          s3 = s2\<lparr>markers := AList.update (marker_key message) node (markers s2)\<rparr>
      in obj_add (rootObject s3) node s3)"

text \<open>
  The \<open>"MODIFY"\<close> block: \<open>this.markers[key].children[0].update(message)\<close>, and the removal
  when the update fails. The result carries the value of \<open>updated\<close>.
\<close>

definition modifyMarker ::
  "(marker_msg \<Rightarrow> marker_msg \<Rightarrow> bool) \<Rightarrow> marker_msg \<Rightarrow> marker_client \<Rightarrow> (bool \<times> marker_client) outcome" where
  "modifyMarker upd message s =
     (case map_of (markers s) (marker_key message) of
        None \<Rightarrow> Done (False, s)
      | Some node \<Rightarrow>
          (case kids s node of
             [] \<Rightarrow> Threw ''TypeError'' (False, s)
           | child # rest \<Rightarrow>
               (case marker_data s child of
                  None \<Rightarrow> Threw ''TypeError'' (False, s)
                | Some shown \<Rightarrow>
                    if upd shown message
                    then Done (True, s\<lparr>marker_data := (marker_data s)(child \<mapsto> message)\<rparr>)
                    else Done (False, removeMarker (marker_key message) s))))"

text \<open>The body of the \<open>forEach\<close> callback: one directive.\<close>

definition processDirective ::
  "(marker_msg \<Rightarrow> marker_msg \<Rightarrow> bool) \<Rightarrow> marker_client \<Rightarrow> marker_msg \<Rightarrow> marker_client outcome" where
  "processDirective upd s message =
     (if msg_action message = 0 then
        (case modifyMarker upd message s of
           Threw e (updated, s1) \<Rightarrow> Threw e s1
         | Done (updated, s1) \<Rightarrow>
             if \<not> updated then Done (addMarker message s1) else Done s1)
      else if msg_action message = 1 then
        Done (log (ConsoleWarn
          ''Received marker message with deprecated action identifier \"1\"'') s)
      else if msg_action message = 2 then
        Done (removeMarker (marker_key message) s)
      else if msg_action message = 3 then
        Done ((foldl (\<lambda>st m. removeMarker m st) s (own_keys (markers s)))\<lparr>markers := []\<rparr>)
      else
        Done (log (ConsoleWarn
          (''Received marker message with unknown action identifier \"''
            @ number_to_string (msg_action message) @ ''\"'')) s))"

fun forEach :: "('s \<Rightarrow> 'm \<Rightarrow> 's outcome) \<Rightarrow> 's \<Rightarrow> 'm list \<Rightarrow> 's outcome" where
  "forEach f s [] = Done s"
| "forEach f s (x # xs) =
     (case f s x of Done s1 \<Rightarrow> forEach f s1 xs | Threw e s1 \<Rightarrow> Threw e s1)"

definition MarkerArrayClient_processMessage ::
  "(marker_msg \<Rightarrow> marker_msg \<Rightarrow> bool) \<Rightarrow> marker_client \<Rightarrow> marker_msg list \<Rightarrow> marker_client outcome" where
  "MarkerArrayClient_processMessage upd s arrayMessage =
     (case forEach (processDirective upd) s arrayMessage of
        Done s1 \<Rightarrow> Done (log (Emit ''change'') s1)
      | Threw e s1 \<Rightarrow> Threw e s1)"

text \<open>A message handed to the transport reaches the handler while the subscription is active.\<close>

definition MarkerArrayClient_deliver ::
  "(marker_msg \<Rightarrow> marker_msg \<Rightarrow> bool) \<Rightarrow> marker_client \<Rightarrow> marker_msg list \<Rightarrow> marker_client outcome" where
  "MarkerArrayClient_deliver upd s arrayMessage =
     (if listening s then MarkerArrayClient_processMessage upd s arrayMessage else Done s)"

text \<open>A sequence of deliveries; a handler that throws leaves the state it had reached.\<close>

definition run :: "('s \<Rightarrow> 'm \<Rightarrow> 's outcome) \<Rightarrow> 's \<Rightarrow> 'm list \<Rightarrow> 's" where
  "run d s ms = foldl (\<lambda>st m. state_of (d st m)) s ms"

section \<open>OccupancyGridClient\<close>

record grid_msg =
  gm_frame_id :: string
  gm_body :: nat

record map_client = client +
  compression :: jsval
  continuous :: jsval
  offsetPose :: jsval
  sceneNode :: "ref option"

text \<open>What an OccupancyGrid object was built from: the message, the colour, the opacity.\<close>

record grid_client = map_client +
  color :: jsval
  opacity :: jsval
  currentGrid :: "ref option"
  grid_data :: "ref \<rightharpoonup> grid_msg \<times> jsval \<times> jsval"

text \<open>\<open>new ROSLIB.Pose()\<close> and the literal \<open>{r:255,g:255,b:255}\<close>.\<close>

definition identity_pose :: jsval where
  "identity_pose =
     JRec [(''position'', JRec [(''x'', JNum 0), (''y'', JNum 0), (''z'', JNum 0)]),
           (''orientation'', JRec [(''x'', JNum 0), (''y'', JNum 0), (''z'', JNum 0), (''w'', JNum 1)])]"

definition white :: jsval where
  "white = JRec [(''r'', JNum 255), (''g'', JNum 255), (''b'', JNum 255)]"

text \<open>
  Modelled from the spec: the geometry builders (navigation/OccupancyGrid.js,
  navigation/OcTree.js, OcTreeBase.js and ColorOcTree.js are missing) are "pure functions
  from decoded message to renderable object". What they build is a renderable object with a
  disposal hook, not a Scene Attachment: it has no \<open>tfClient\<close> property, so reading that
  property gives \<open>undefined\<close>.
\<close>

definition built_tfClient :: "'b \<Rightarrow> jsval" where
  "built_tfClient x = JUndefined"

definition new_OccupancyGrid :: "grid_msg \<Rightarrow> jsval \<Rightarrow> jsval \<Rightarrow> grid_client \<Rightarrow> ref \<times> grid_client" where
  "new_OccupancyGrid message col opa s =
     (let (g, s1) = new_object s
      in (g, s1\<lparr>grid_data := (grid_data s1)(g \<mapsto> (message, col, opa))\<rparr>))"

definition OccupancyGridClient_subscribe :: "grid_client \<Rightarrow> grid_client" where
  "OccupancyGridClient_subscribe s =
     (let s1 = unsubscribe s;
          s2 = s1\<lparr>rosTopic := Some
                 \<lparr>t_name = topicName s1, t_messageType = ''nav_msgs/OccupancyGrid'',
                  t_compression = compression s1, t_queue_length = Some 1,
                  t_subscribed = False\<rparr>\<rparr>;
          s3 = s2\<lparr>sceneNode := None\<rparr>
      in s3\<lparr>rosTopic := map_option topic_subscribe (rosTopic s3)\<rparr>)"

definition OccupancyGridClient :: "scene \<Rightarrow> options option \<Rightarrow> grid_client" where
  "OccupancyGridClient sc opts =
     (let options = options_or_empty opts;
          (rootObj, sc1) = root_or_new (o_rootObject options) sc
      in OccupancyGridClient_subscribe
           \<lparr>kids = kids sc1, next_ref = next_ref sc1, trace = trace sc1,
            ros = o_ros options,
            topicName = js_or (o_topic options) (JStr ''/map''),
            tfClient = o_tfClient options,
            rootObject = rootObj, rosTopic = None,
            compression = js_or (o_compression options) (JStr ''cbor''),
            continuous = o_continuous options,
            offsetPose = js_or (o_offsetPose options) identity_pose,
            sceneNode = None,
            color = js_or (o_color options) white,
            opacity = js_or (o_opacity options) (JNum 1),
            currentGrid = None, grid_data = Map.empty\<rparr>)"

text \<open>The block under \<open>// check for an old map\<close>. \<open>this.sceneNode.remove\<close> throws on \<open>null\<close>.\<close>

definition releaseGrid :: "grid_client \<Rightarrow> grid_client outcome" where
  "releaseGrid s =
     (case currentGrid s of
        None \<Rightarrow> Done s
      | Some g \<Rightarrow>
          (let s1 = (if truthy (built_tfClient g) then unsubscribeTf g s else s)
           in case sceneNode s1 of
                None \<Rightarrow> Threw ''TypeError'' s1
              | Some sn \<Rightarrow> Done (log (Dispose g) (obj_remove sn g s1))))"

text \<open>The block under \<open>// check if we care about the scene\<close>.\<close>

definition installGrid :: "grid_msg \<Rightarrow> ref \<Rightarrow> grid_client \<Rightarrow> grid_client" where
  "installGrid message newGrid s =
     (if truthy (tfClient s) then
        (let s1 = s\<lparr>currentGrid := Some newGrid\<rparr>
         in case sceneNode s1 of
              None \<Rightarrow>
                (let (n, s2) = new_SceneNode (gm_frame_id message) newGrid s1;
                     s3 = s2\<lparr>sceneNode := Some n\<rparr>
                 in obj_add (rootObject s3) n s3)
            | Some sn \<Rightarrow> obj_add sn newGrid s1)
      else
        (let s1 = s\<lparr>currentGrid := Some newGrid, sceneNode := Some newGrid\<rparr>
         in obj_add (rootObject s1) newGrid s1))"

text \<open>
  The block under \<open>// check if we should unsubscribe\<close>, the same in the grid and the octree
  client: \<open>if (!this.continuous) { this.rosTopic.unsubscribe(); }\<close>.
\<close>

definition unsubscribe_unless_continuous :: "'a map_client_scheme \<Rightarrow> 'a map_client_scheme outcome" where
  "unsubscribe_unless_continuous s =
     (if \<not> truthy (continuous s) then
        (case rosTopic s of
           None \<Rightarrow> Threw ''TypeError'' s
         | Some t \<Rightarrow> Done (s\<lparr>rosTopic := Some (topic_unsubscribe t)\<rparr>))
      else Done s)"

definition OccupancyGridClient_processMessage :: "grid_client \<Rightarrow> grid_msg \<Rightarrow> grid_client outcome" where
  "OccupancyGridClient_processMessage s message =
     (case releaseGrid s of
        Threw e s1 \<Rightarrow> Threw e s1
      | Done s1 \<Rightarrow>
          (let (newGrid, s2) = new_OccupancyGrid message (color s1) (opacity s1) s1;
               s3 = installGrid message newGrid s2;
               s4 = log (Emit ''change'') s3
           in unsubscribe_unless_continuous s4))"

definition OccupancyGridClient_deliver :: "grid_client \<Rightarrow> grid_msg \<Rightarrow> grid_client outcome" where
  "OccupancyGridClient_deliver s message =
     (if listening s then OccupancyGridClient_processMessage s message else Done s)"

section \<open>OcTreeClient\<close>

record octomap_msg =
  om_id :: string
  om_binary :: bool
  om_resolution :: jsval
  om_frame_id :: string
  om_data :: "nat list"

text \<open>
  A built tree: the constructor that made it, the options it was given, and its renderable
  object \<open>newOcTree.object\<close>.
\<close>

record octree =
  ot_ctor :: string
  ot_options :: "(string \<times> jsval) list"
  ot_object :: ref

text \<open>
  \<open>microtasks\<close> holds the fulfilment callbacks of resolved promises that have not run yet,
  each with the values it has captured (the new tree and the message's frame).
\<close>

record octree_client = map_client +
  options :: "(string \<times> jsval) list"
  currentMap :: "octree option"
  microtasks :: "(octree \<times> string) list"

text \<open>\<open>Object.assign(target, source)\<close>: every entry of the source is written to the target.\<close>

definition object_assign :: "(string \<times> jsval) list \<Rightarrow> (string \<times> jsval) list \<Rightarrow> (string \<times> jsval) list" where
  "object_assign target source = foldl (\<lambda>acc (k, v). AList.update k v acc) target source"

text \<open>
  The block under \<open>// Append only when it was set\<close>, in the order of the source. The entry
  \<open>paletteScale\<close> is assigned \<open>options.palette\<close>.
\<close>

definition converter_options :: "Spec2Isabelle.options \<Rightarrow> (string \<times> jsval) list" where
  "converter_options opts =
     (let o0 = [];
          o1 = (if o_color opts \<noteq> JUndefined then AList.update ''color'' (o_color opts) o0 else o0);
          o2 = (if o_opacity opts \<noteq> JUndefined then AList.update ''opacity'' (o_opacity opts) o1 else o1);
          o3 = (if o_colorMode opts \<noteq> JUndefined then AList.update ''colorMode'' (o_colorMode opts) o2 else o2);
          o4 = (if o_palette opts \<noteq> JUndefined then AList.update ''palette'' (o_palette opts) o3 else o3);
          o5 = (if o_paletteScale opts \<noteq> JUndefined then AList.update ''paletteScale'' (o_palette opts) o4 else o4);
          o6 = (if o_voxelRenderMode opts \<noteq> JUndefined
                then AList.update ''voxelRenderMode'' (o_voxelRenderMode opts) o5 else o5)
      in o6)"

definition OcTreeClient_subscribe :: "octree_client \<Rightarrow> octree_client" where
  "OcTreeClient_subscribe s =
     (let s1 = unsubscribe s
      in s1\<lparr>rosTopic := Some (topic_subscribe
           \<lparr>t_name = topicName s1, t_messageType = ''octomap_msgs/Octomap'',
            t_compression = compression s1, t_queue_length = Some 1,
            t_subscribed = False\<rparr>)\<rparr>)"

definition OcTreeClient :: "scene \<Rightarrow> Spec2Isabelle.options option \<Rightarrow> octree_client" where
  "OcTreeClient sc opts =
     (let given = options_or_empty opts;
          (rootObj, sc1) = root_or_new (o_rootObject given) sc
      in OcTreeClient_subscribe
           \<lparr>kids = kids sc1, next_ref = next_ref sc1, trace = trace sc1,
            ros = o_ros given,
            topicName = js_or (o_topic given) (JStr ''/octomap''),
            tfClient = o_tfClient given,
            rootObject = rootObj, rosTopic = None,
            compression = js_or (o_compression given) (JStr ''cbor''),
            continuous = o_continuous given,
            offsetPose = js_or (o_offsetPose given) identity_pose,
            sceneNode = None,
            options = converter_options given,
            currentMap = None, microtasks = []\<rparr>)"

text \<open>
  \<open>message.id in ctorTable\<close> also finds the properties that the object literal inherits
  from \<open>Object.prototype\<close>; none of them yields a tree: \<open>new\<close> of a built-in method or of
  the prototype object throws, and \<open>new Object(options)\<close> is the options object, which has
  no \<open>read\<close> method.
\<close>

definition object_prototype_keys :: "string list" where
  "object_prototype_keys =
     [''constructor'', ''__defineGetter__'', ''__defineSetter__'', ''hasOwnProperty'',
      ''__lookupGetter__'', ''__lookupSetter__'', ''isPrototypeOf'', ''propertyIsEnumerable'',
      ''toString'', ''valueOf'', ''__proto__'', ''toLocaleString'']"

definition ctorTable :: "string list" where
  "ctorTable = [''OcTree'', ''ColorOcTree'']"

text \<open>
  The executor of the promise in \<open>_loadOcTree\<close>, which runs at once. The missing readers
  and \<open>buildGeometry\<close> are the parameter \<open>builds\<close>: whether they complete on this message
  without throwing. An exception in the executor rejects the promise (\<open>Inl\<close>); when no
  constructor was chosen \<open>newOcTree\<close> is still \<open>null\<close> and \<open>newOcTree.buildGeometry()\<close>
  throws.
\<close>

definition loadOcTree ::
  "(octomap_msg \<Rightarrow> bool) \<Rightarrow> octree_client \<Rightarrow> octomap_msg \<Rightarrow> (string + octree) \<times> octree_client" where
  "loadOcTree builds s message =
     (let opts = object_assign [(''resolution'', om_resolution message)] (options s)
      in if om_binary message then
           (if builds message then
              (let (obj, s1) = new_object s
               in (Inr \<lparr>ot_ctor = ''OcTreeBase'', ot_options = opts, ot_object = obj\<rparr>, s1))
            else (Inl ''Error'', s))
         else if om_id message \<in> set ctorTable then
           (let s0 = log (ConsoleLog (om_id message)) s
            in if builds message then
                 (let (obj, s1) = new_object s0
                  in (Inr \<lparr>ot_ctor = om_id message, ot_options = opts, ot_object = obj\<rparr>, s1))
               else (Inl ''Error'', s0))
         else if om_id message \<in> set object_prototype_keys then
           (Inl ''TypeError'', log (ConsoleLog (om_id message)) s)
         else (Inl ''TypeError'', s))"

text \<open>
  \<open>_processMessagePrivate\<close>: \<open>promise.then\<close> registers a fulfilment callback only; it is
  queued when the promise is fulfilled and never when it is rejected.
\<close>

definition processMessagePrivate ::
  "(octomap_msg \<Rightarrow> bool) \<Rightarrow> octree_client \<Rightarrow> octomap_msg \<Rightarrow> octree_client" where
  "processMessagePrivate builds s message =
     (case loadOcTree builds s message of
        (Inl e, s1) \<Rightarrow> s1
      | (Inr newOcTree, s1) \<Rightarrow>
          s1\<lparr>microtasks := microtasks s1 @ [(newOcTree, om_frame_id message)]\<rparr>)"

text \<open>The fulfilment callback, under \<open>// 3. Replace geometry\<close>.\<close>

definition replaceGeometry :: "octree \<times> string \<Rightarrow> octree_client \<Rightarrow> octree_client" where
  "replaceGeometry job s =
     (let (newOcTree, frame) = job;
          oldNode = sceneNode s;
          s1 = (if truthy (tfClient s) then
                  (let s0 = s\<lparr>currentMap := Some newOcTree\<rparr>;
                       (n, s0a) = new_SceneNode frame (ot_object newOcTree) s0
                   in s0a\<lparr>sceneNode := Some n\<rparr>)
                else s\<lparr>sceneNode := Some (ot_object newOcTree), currentMap := Some newOcTree\<rparr>);
          s2 = (case oldNode of None \<Rightarrow> s1 | Some old \<Rightarrow> obj_remove (rootObject s1) old s1);
          s3 = (case sceneNode s2 of None \<Rightarrow> s2 | Some n \<Rightarrow> obj_add (rootObject s2) n s2)
      in log (Emit ''change'') s3)"

definition OcTreeClient_processMessage ::
  "(octomap_msg \<Rightarrow> bool) \<Rightarrow> octree_client \<Rightarrow> octomap_msg \<Rightarrow> octree_client outcome" where
  "OcTreeClient_processMessage builds s message =
     (let s1 = (case currentMap s of
                  None \<Rightarrow> s
                | Some m \<Rightarrow> if truthy (built_tfClient m) then unsubscribeTf (ot_object m) s else s);
          s2 = processMessagePrivate builds s1 message
      in unsubscribe_unless_continuous s2)"

text \<open>
  The queued callbacks run, first queued first, once the handler has returned or thrown.
\<close>

definition run_microtasks :: "octree_client \<Rightarrow> octree_client" where
  "run_microtasks s = foldl (\<lambda>st job. replaceGeometry job st) (s\<lparr>microtasks := []\<rparr>) (microtasks s)"

definition OcTreeClient_deliver ::
  "(octomap_msg \<Rightarrow> bool) \<Rightarrow> octree_client \<Rightarrow> octomap_msg \<Rightarrow> octree_client outcome" where
  "OcTreeClient_deliver builds s message =
     (if listening s then
        (case OcTreeClient_processMessage builds s message of
           Done s1 \<Rightarrow> Done (run_microtasks s1)
         | Threw e s1 \<Rightarrow> Threw e (run_microtasks s1))
      else Done s)"

text \<open>
  A grid client is well formed when its root and its scene node are objects that exist,
  and a grid is displayed only while there is a scene node to host it.
\<close>

definition grid_wf :: "grid_client \<Rightarrow> bool" where
  "grid_wf s =
     (rootObject s < next_ref s
      \<and> (case sceneNode s of None \<Rightarrow> currentGrid s = None | Some host \<Rightarrow> host < next_ref s))"

text \<open>A root object passed in the options is an object of the scene.\<close>

definition root_in_scene :: "scene \<Rightarrow> Spec2Isabelle.options option \<Rightarrow> bool" where
  "root_in_scene sc opts =
     (case o_rootObject (options_or_empty opts) of None \<Rightarrow> True | Some r \<Rightarrow> r < next_ref sc)"

section \<open>Scenarios\<close>

text \<open>
  Concrete inputs for the examples below: a scene with nothing in it (reference 0 stands
  for the frame-tracking client handle), a marker directive, a grid message, an octomap
  message, a marker that refuses every update and a tree builder that never throws.
\<close>

definition empty_scene :: scene where
  "empty_scene = \<lparr>kids = (\<lambda>r. []), next_ref = 1, trace = []\<rparr>"

definition directive :: "string \<Rightarrow> int \<Rightarrow> int \<Rightarrow> marker_msg" where
  "directive n i a =
     \<lparr>msg_ns = n, msg_id = i, msg_action = a, msg_frame_id = ''map'', msg_body = 0\<rparr>"

definition never_updates :: "marker_msg \<Rightarrow> marker_msg \<Rightarrow> bool" where
  "never_updates shown message = False"

definition grid_message :: grid_msg where
  "grid_message = \<lparr>gm_frame_id = ''map'', gm_body = 0\<rparr>"

definition octomap_message :: "string \<Rightarrow> octomap_msg" where
  "octomap_message i =
     \<lparr>om_id = i, om_binary = False, om_resolution = JNum 1, om_frame_id = ''map'', om_data = []\<rparr>"

definition always_builds :: "octomap_msg \<Rightarrow> bool" where
  "always_builds message = True"

definition continuous_options :: Spec2Isabelle.options where
  "continuous_options = no_options\<lparr>o_continuous := JBool True\<rparr>"

definition tracking_options :: Spec2Isabelle.options where
  "tracking_options = no_options\<lparr>o_continuous := JBool True, o_tfClient := JObj 0\<rparr>"

text \<open>The marker client after the batch that adds the marker \<open>a\<close>/1.\<close>

definition one_marker :: marker_client where
  "one_marker = state_of (MarkerArrayClient_deliver never_updates
     (MarkerArrayClient empty_scene None) [directive ''a'' 1 0])"

text \<open>A continuous grid client, without and with frame tracking, after its first message.\<close>

definition grid_shown_once :: grid_client where
  "grid_shown_once = state_of (OccupancyGridClient_deliver
     (OccupancyGridClient empty_scene (Some continuous_options)) grid_message)"

definition grid_tracked_once :: grid_client where
  "grid_tracked_once = state_of (OccupancyGridClient_deliver
     (OccupancyGridClient empty_scene (Some tracking_options)) grid_message)"

text \<open>A continuous octree client with frame tracking after its first message.\<close>

definition octree_tracked_once :: octree_client where
  "octree_tracked_once = state_of (OcTreeClient_deliver always_builds
     (OcTreeClient empty_scene (Some tracking_options)) (octomap_message ''OcTree''))"

section \<open>Rendering of numbers\<close>

lemma digit_char_inj: "digit_char a = digit_char b \<Longrightarrow> a mod 10 = b mod 10"
proof -
  assume h: "digit_char a = digit_char b"
  have d: "distinct ''0123456789''" by simp
  have "a mod 10 < length ''0123456789''" "b mod 10 < length ''0123456789''" by simp_all
  with d h show ?thesis unfolding digit_char_def by (simp only: nth_eq_iff_index_eq)
qed

lemma digit_char_digit: "digit_char d \<in> set ''0123456789''"
proof -
  have "d mod 10 < length ''0123456789''" by simp
  then show ?thesis unfolding digit_char_def by (rule nth_mem)
qed

lemma digit_char_num: "is_num_char (digit_char d)"
  using digit_char_digit [of d] by (auto simp: is_num_char_def)

lemma digit_char_not_minus: "digit_char d \<noteq> CHR ''-''"
  using digit_char_digit [of d] by auto

lemma dec_nat_small: "n < 10 \<Longrightarrow> dec_nat n = [digit_char n]"
  by (subst dec_nat.simps) simp

lemma dec_nat_big: "\<not> n < 10 \<Longrightarrow> dec_nat n = dec_nat (n div 10) @ [digit_char (n mod 10)]"
  by (subst dec_nat.simps) simp

lemma dec_nat_nonempty: "dec_nat n \<noteq> []"
  by (subst dec_nat.simps) simp

lemma dec_nat_inj: "dec_nat a = dec_nat b \<Longrightarrow> a = b"
proof (induction a arbitrary: b rule: dec_nat.induct)
  case (1 n)
  show ?case
  proof (cases "n < 10")
    case True
    from "1.prems" dec_nat_small [OF True] have e: "[digit_char n] = dec_nat b" by simp
    have "b < 10"
    proof (rule ccontr)
      assume "\<not> b < 10"
      from dec_nat_big [OF this] e dec_nat_nonempty [of "b div 10"] show False by simp
    qed
    from dec_nat_small [OF this] e have "digit_char n = digit_char b" by simp
    from digit_char_inj [OF this] True \<open>b < 10\<close> show ?thesis by simp
  next
    case False
    note en = dec_nat_big [OF False]
    have nb: "\<not> b < 10"
    proof
      assume "b < 10"
      from dec_nat_small [OF this] en "1.prems" dec_nat_nonempty [of "n div 10"] show False by simp
    qed
    from en dec_nat_big [OF nb] "1.prems"
    have a: "dec_nat (n div 10) = dec_nat (b div 10)"
      and c: "digit_char (n mod 10) = digit_char (b mod 10)"
      by simp_all
    from "1.IH" [OF False a] have "n div 10 = b div 10" .
    moreover from digit_char_inj [OF c] have "n mod 10 = b mod 10" by simp
    ultimately show ?thesis by (metis div_mult_mod_eq)
  qed
qed

lemma dec_nat_chars: "c \<in> set (dec_nat n) \<Longrightarrow> is_num_char c \<and> c \<noteq> CHR ''-''"
proof (induction n rule: dec_nat.induct)
  case (1 n)
  show ?case
  proof (cases "n < 10")
    case True
    from "1.prems" dec_nat_small [OF True] show ?thesis
      by (simp add: digit_char_num digit_char_not_minus)
  next
    case False
    from "1.prems" dec_nat_big [OF False]
    have "c \<in> set (dec_nat (n div 10)) \<or> c = digit_char (n mod 10)" by auto
    with "1.IH" [OF False] show ?thesis
      by (auto simp: digit_char_num digit_char_not_minus)
  qed
qed

lemma dec_nat_no_minus: "dec_nat n \<noteq> CHR ''-'' # cs"
proof
  assume "dec_nat n = CHR ''-'' # cs"
  then have "CHR ''-'' \<in> set (dec_nat n)" by simp
  from dec_nat_chars [OF this] show False by simp
qed

lemma number_to_string_inj: "number_to_string i = number_to_string j \<Longrightarrow> i = j"
proof -
  assume h: "number_to_string i = number_to_string j"
  show ?thesis
  proof (cases "i < 0"; cases "j < 0")
    assume "i < 0" "j < 0"
    with h have "dec_nat (nat (- i)) = dec_nat (nat (- j))" by (simp add: number_to_string_def)
    from dec_nat_inj [OF this] \<open>i < 0\<close> \<open>j < 0\<close> show ?thesis by simp
  next
    assume "i < 0" "\<not> j < 0"
    with h dec_nat_no_minus [of "nat j" "dec_nat (nat (- i))"] show ?thesis
      by (simp add: number_to_string_def)
  next
    assume "\<not> i < 0" "j < 0"
    with h dec_nat_no_minus [of "nat i" "dec_nat (nat (- j))"] show ?thesis
      by (simp add: number_to_string_def)
  next
    assume "\<not> i < 0" "\<not> j < 0"
    with h have "dec_nat (nat i) = dec_nat (nat j)" by (simp add: number_to_string_def)
    from dec_nat_inj [OF this] \<open>\<not> i < 0\<close> \<open>\<not> j < 0\<close> show ?thesis by simp
  qed
qed

lemma minus_num_char: "is_num_char CHR ''-''"
  by (simp add: is_num_char_def)

lemma number_to_string_chars: "c \<in> set (number_to_string i) \<Longrightarrow> is_num_char c"
  using dec_nat_chars by (auto simp: number_to_string_def minus_num_char split: if_splits)

lemma plain_ns_suffix:
  assumes "plain_ns a" and "a = b @ us" and "\<forall>c \<in> set us. is_num_char c"
  shows "us = []"
proof (rule ccontr)
  assume ne: "us \<noteq> []"
  with assms(2) have "a \<noteq> []" and "last a = last us" by simp_all
  moreover from ne assms(3) have "is_num_char (last us)" by simp
  ultimately show False using assms(1) by (simp add: plain_ns_def)
qed

lemma key_split_unique:
  assumes eq: "a @ number_to_string i = b @ number_to_string j"
      and pa: "plain_ns a" and pb: "plain_ns b"
  shows "a = b \<and> i = j"
proof -
  from eq obtain us where
    "(a = b @ us \<and> us @ number_to_string i = number_to_string j)
     \<or> (a @ us = b \<and> number_to_string i = us @ number_to_string j)"
    by (auto simp: append_eq_append_conv2)
  then show ?thesis
  proof
    assume h: "a = b @ us \<and> us @ number_to_string i = number_to_string j"
    then have "set us \<subseteq> set (number_to_string j)" by (metis set_append Un_upper1)
    then have "\<forall>c \<in> set us. is_num_char c" using number_to_string_chars by blast
    with pa h have "us = []" using plain_ns_suffix by blast
    with h show ?thesis using number_to_string_inj by simp
  next
    assume h: "a @ us = b \<and> number_to_string i = us @ number_to_string j"
    then have "set us \<subseteq> set (number_to_string i)" by (metis set_append Un_upper1)
    then have "\<forall>c \<in> set us. is_num_char c" using number_to_string_chars by blast
    with pb h have "us = []" using plain_ns_suffix [of b a us] by blast
    with h show ?thesis using number_to_string_inj by simp
  qed
qed


section \<open>Facts about the marker client\<close>

text \<open>A registry key ends in a digit, so it names no property inherited from the prototype.\<close>

lemma dec_nat_last: "last (dec_nat n) = digit_char n"
proof (cases "n < 10")
  case True
  then show ?thesis by (simp add: dec_nat_small)
next
  case False
  then show ?thesis by (simp add: dec_nat_big [OF False] digit_char_def)
qed

lemma marker_key_last_digit:
  "marker_key message \<noteq> [] \<and> last (marker_key message) \<in> set ''0123456789''"
proof -
  have "number_to_string i \<noteq> [] \<and> last (number_to_string i) \<in> set ''0123456789''" for i
    using digit_char_digit dec_nat_nonempty
    by (simp add: number_to_string_def dec_nat_last)
  then show ?thesis by (simp add: marker_key_def)
qed

lemma marker_key_not_inherited: "marker_key message \<notin> set object_prototype_keys"
proof
  assume "marker_key message \<in> set object_prototype_keys"
  then have "last (marker_key message) \<notin> set ''0123456789''"
    by (auto simp: object_prototype_keys_def)
  with marker_key_last_digit [of message] show False by simp
qed


lemma foldl_dispose:
  "foldl (\<lambda>st child. log (Dispose child) st) s cs = s\<lparr>trace := trace s @ map Dispose cs\<rparr>"
  by (induction cs arbitrary: s) (simp_all add: log_def)

lemma removeMarker_absent: "map_of (markers s) key = None \<Longrightarrow> removeMarker key s = s"
  by (simp add: removeMarker_def)

lemma removeMarker_present:
  assumes "map_of (markers s) key = Some node" and "node \<noteq> rootObject s"
  shows "removeMarker key s =
     s\<lparr>kids := (kids s)(rootObject s := remove1 node (kids s (rootObject s))),
       trace := trace s @ [UnsubscribeTf node]
                @ (if node \<in> set (kids s (rootObject s)) then [Detached (rootObject s) node] else [])
                @ map Dispose (kids s node),
       markers := AList.delete key (markers s)\<rparr>"
  using assms
  by (simp add: removeMarker_def foldl_dispose Let_def)
     (simp add: unsubscribeTf_def obj_remove_def log_def remove1_idem)

lemma fresh_marker_client:
  "MarkerArrayClient empty_scene None =
     \<lparr>kids = (\<lambda>r. []), next_ref = 2, trace = [],
      ros = JUndefined, topicName = JUndefined, tfClient = JUndefined, rootObject = 1,
      rosTopic = Some \<lparr>t_name = JUndefined, t_messageType = ''visualization_msgs/MarkerArray'',
            t_compression = JStr ''png'', t_queue_length = None, t_subscribed = True\<rparr>,
      path = JStr ''/'', markers = [], marker_data = Map.empty\<rparr>"
  by (simp add: MarkerArrayClient_def MarkerArrayClient_subscribe_def root_or_new_def
      options_or_empty_def no_options_def new_object_def empty_scene_def unsubscribe_def
      topic_subscribe_def js_or_def fun_eq_iff)

lemma key_a1: "marker_key (directive ''a'' 1 a) = ''a1''"
  by (simp add: marker_key_def directive_def number_to_string_def dec_nat.simps digit_char_def)

lemma directive_sel:
  "msg_ns (directive n i a) = n" "msg_id (directive n i a) = i" "msg_action (directive n i a) = a"
  "msg_frame_id (directive n i a) = ''map''"
  by (simp_all add: directive_def)

lemma key_b1: "marker_key (directive ''b'' 1 a) = ''b1''"
  by (simp add: marker_key_def directive_def number_to_string_def dec_nat.simps digit_char_def)

lemma key_a12: "marker_key (directive ''a1'' 2 a) = ''a12''" "marker_key (directive ''a'' 12 a) = ''a12''"
  by (simp_all add: marker_key_def directive_def number_to_string_def dec_nat.simps digit_char_def)

lemma one_marker_state:
  "one_marker =
     \<lparr>kids = (\<lambda>r. [])(3 := [2], 1 := [3]), next_ref = 4,
      trace = [Attached 3 2, SubscribeTf 3 ''map'', Attached 1 3, Emit ''change''],
      ros = JUndefined, topicName = JUndefined, tfClient = JUndefined, rootObject = 1,
      rosTopic = Some \<lparr>t_name = JUndefined, t_messageType = ''visualization_msgs/MarkerArray'',
            t_compression = JStr ''png'', t_queue_length = None, t_subscribed = True\<rparr>,
      path = JStr ''/'', markers = [(''a1'', 3)],
      marker_data = [2 \<mapsto> directive ''a'' 1 0]\<rparr>"
  unfolding one_marker_def fresh_marker_client
  by (simp add: MarkerArrayClient_deliver_def listening_def MarkerArrayClient_processMessage_def
      processDirective_def modifyMarker_def key_a1
      addMarker_def new_Marker_def new_SceneNode_def new_object_def obj_add_def log_def)
     (simp add: directive_def fun_eq_iff)

lemma readd_state:
  "processDirective never_updates one_marker (directive ''a'' 1 0) = Done
     \<lparr>kids = (\<lambda>r. [])(3 := [2], 4 := [], 5 := [4], 1 := [5]), next_ref = 6,
      trace = [Attached 3 2, SubscribeTf 3 ''map'', Attached 1 3, Emit ''change'',
               UnsubscribeTf 3, Detached 1 3, Dispose 2,
               Attached 5 4, SubscribeTf 5 ''map'', Attached 1 5],
      ros = JUndefined, topicName = JUndefined, tfClient = JUndefined, rootObject = 1,
      rosTopic = Some \<lparr>t_name = JUndefined, t_messageType = ''visualization_msgs/MarkerArray'',
            t_compression = JStr ''png'', t_queue_length = None, t_subscribed = True\<rparr>,
      path = JStr ''/'', markers = [(''a1'', 5)],
      marker_data = [2 \<mapsto> directive ''a'' 1 0, 4 \<mapsto> directive ''a'' 1 0]\<rparr>"
  unfolding one_marker_state
  by (simp add: processDirective_def modifyMarker_def key_a1 never_updates_def removeMarker_def
      unsubscribeTf_def obj_remove_def
      addMarker_def new_Marker_def new_SceneNode_def new_object_def obj_add_def log_def)
     (simp add: directive_def fun_eq_iff)


lemma delete_a12_state:
  "markers (state_of (processDirective never_updates
      (state_of (processDirective never_updates (MarkerArrayClient empty_scene None)
         (directive ''a1'' 2 0)))
      (directive ''a'' 12 2))) = []"
  unfolding fresh_marker_client
  by (simp add: processDirective_def modifyMarker_def key_a12 never_updates_def removeMarker_def
      unsubscribeTf_def obj_remove_def directive_sel
      addMarker_def new_Marker_def new_SceneNode_def new_object_def obj_add_def log_def)

section \<open>Claims about the marker client\<close>

text \<open>
  C8, as stated, fails: the registry key is the concatenation \<open>ns + id\<close>, and the
  distinct pairs (a1, 2) and (a, 12) both give the key \<open>a12\<close>. A DELETE addressed to
  (a, 12) removes the marker that was added as (a1, 2).
\<close>

theorem registry_key_collision:
  "(''a1'', 2::int) \<noteq> (''a'', 12)
   \<and> marker_key (directive ''a1'' 2 0) = marker_key (directive ''a'' 12 2)
   \<and> markers (state_of (processDirective never_updates (MarkerArrayClient empty_scene None)
         (directive ''a1'' 2 0))) \<noteq> []
   \<and> markers (state_of (processDirective never_updates
        (state_of (processDirective never_updates (MarkerArrayClient empty_scene None)
           (directive ''a1'' 2 0)))
        (directive ''a'' 12 2))) = []"
  unfolding delete_a12_state
  by (simp add: key_a12)
     (simp add: fresh_marker_client processDirective_def modifyMarker_def key_a12 directive_sel
        addMarker_def new_Marker_def new_SceneNode_def new_object_def obj_add_def log_def)

text \<open>
  C8, amended: the registry is keyed by the string \<open>ns + id\<close>. Two directives whose
  (namespace, identifier) pairs differ address distinct registry entries whenever their
  namespaces are equal, or neither namespace ends in a decimal digit or a minus sign.
\<close>

theorem registry_key_distinct:
  assumes "(msg_ns a, msg_id a) \<noteq> (msg_ns b, msg_id b)"
      and "msg_ns a = msg_ns b \<or> (plain_ns (msg_ns a) \<and> plain_ns (msg_ns b))"
  shows "marker_key a \<noteq> marker_key b"
proof
  assume eq: "marker_key a = marker_key b"
  from assms(2) show False
  proof
    assume same: "msg_ns a = msg_ns b"
    with eq have "number_to_string (msg_id a) = number_to_string (msg_id b)"
      by (simp add: marker_key_def)
    from number_to_string_inj [OF this] same assms(1) show False by simp
  next
    assume "plain_ns (msg_ns a) \<and> plain_ns (msg_ns b)"
    with eq key_split_unique [of "msg_ns a" "msg_id a" "msg_ns b" "msg_id b"] assms(1)
    show False by (simp add: marker_key_def)
  qed
qed

theorem registry_key_distinct_witness:
  "(msg_ns (directive ''a'' 1 0), msg_id (directive ''a'' 1 0))
     \<noteq> (msg_ns (directive ''b'' 12 0), msg_id (directive ''b'' 12 0))
   \<and> plain_ns (msg_ns (directive ''a'' 1 0)) \<and> plain_ns (msg_ns (directive ''b'' 12 0))
   \<and> marker_key (directive ''a'' 1 0) \<noteq> marker_key (directive ''b'' 12 0)
   \<and> (msg_ns (directive ''a1'' 2 0), msg_id (directive ''a1'' 2 0))
     \<noteq> (msg_ns (directive ''a1'' 3 0), msg_id (directive ''a1'' 3 0))
   \<and> msg_ns (directive ''a1'' 2 0) = msg_ns (directive ''a1'' 3 0)
   \<and> marker_key (directive ''a1'' 2 0) \<noteq> marker_key (directive ''a1'' 3 0)"
  using registry_key_distinct [of "directive ''a'' 1 0" "directive ''b'' 12 0"]
    registry_key_distinct [of "directive ''a1'' 2 0" "directive ''a1'' 3 0"]
  by (simp add: directive_sel plain_ns_def is_num_char_def)

text \<open>
  C1, as stated, fails: when the update of the marker shown under the key is refused, the
  marker is removed and a new one is inserted under the same key and attached to the root.
\<close>

theorem failed_update_counterexample:
  "msg_action (directive ''a'' 1 0) = 0
   \<and> map_of (markers one_marker) (marker_key (directive ''a'' 1 0)) = Some 3
   \<and> kids one_marker 3 = [2]
   \<and> marker_data one_marker 2 = Some (directive ''a'' 1 0)
   \<and> \<not> never_updates (directive ''a'' 1 0) (directive ''a'' 1 0)
   \<and> map_of (markers (state_of (processDirective never_updates one_marker (directive ''a'' 1 0))))
        (marker_key (directive ''a'' 1 0)) = Some 5
   \<and> kids (state_of (processDirective never_updates one_marker (directive ''a'' 1 0)))
        (rootObject one_marker) = [5]"
  unfolding readd_state
  by (simp add: one_marker_state key_a1 never_updates_def) (simp add: directive_def)


text \<open>
  C1, amended: on an ADD/MODIFY directive for a key that is present, when the in-place
  update reports that it cannot represent the new state, the engine performs the DELETE of
  that key (frame tracking of the old node unsubscribed, old node detached from the root,
  its children disposed, registry entry removed) and then the fresh insert: a new marker
  and a new node are built from the directive, the key is bound to the new node, and the new
  node is attached to the root.
\<close>

theorem failed_update_reinserts:
  assumes "msg_action message = 0"
      and "map_of (markers s) (marker_key message) = Some node"
      and "kids s node = child # rest"
      and "marker_data s child = Some shown"
      and "\<not> upd shown message"
      and "rootObject s < next_ref s" and "node \<noteq> rootObject s"
  shows "\<exists>s'. processDirective upd s message = Done s'
           \<and> map_of (markers s') (marker_key message) = Some (Suc (next_ref s))
           \<and> rootObject s' = rootObject s
           \<and> kids s' (rootObject s) = remove1 node (kids s (rootObject s)) @ [Suc (next_ref s)]
           \<and> kids s' (Suc (next_ref s)) = [next_ref s]
           \<and> marker_data s' (next_ref s) = Some message
           \<and> trace s' = trace s @ [UnsubscribeTf node]
               @ (if node \<in> set (kids s (rootObject s)) then [Detached (rootObject s) node] else [])
               @ map Dispose (child # rest)
               @ [Attached (Suc (next_ref s)) (next_ref s),
                  SubscribeTf (Suc (next_ref s)) (msg_frame_id message),
                  Attached (rootObject s) (Suc (next_ref s))]"
proof -
  from assms(2,7) have r: "removeMarker (marker_key message) s =
     s\<lparr>kids := (kids s)(rootObject s := remove1 node (kids s (rootObject s))),
       trace := trace s @ [UnsubscribeTf node]
                @ (if node \<in> set (kids s (rootObject s)) then [Detached (rootObject s) node] else [])
                @ map Dispose (kids s node),
       markers := AList.delete (marker_key message) (markers s)\<rparr>"
    by (simp add: removeMarker_present)
  from assms(2-5) have m: "modifyMarker upd message s = Done (False, removeMarker (marker_key message) s)"
    by (simp add: modifyMarker_def)
  from assms(1) m have p: "processDirective upd s message
      = Done (addMarker message (removeMarker (marker_key message) s))"
    by (simp add: processDirective_def)
  show ?thesis
    unfolding p r using assms(3,6,7)
    by (simp add: addMarker_def new_Marker_def new_SceneNode_def new_object_def obj_add_def log_def
        Let_def update_conv')
qed


theorem failed_update_reinserts_witness:
  "msg_action (directive ''a'' 1 0) = 0
   \<and> map_of (markers one_marker) (marker_key (directive ''a'' 1 0)) = Some 3
   \<and> kids one_marker 3 = [2]
   \<and> marker_data one_marker 2 = Some (directive ''a'' 1 0)
   \<and> \<not> never_updates (directive ''a'' 1 0) (directive ''a'' 1 0)
   \<and> rootObject one_marker < next_ref one_marker
   \<and> 3 \<noteq> rootObject one_marker
   \<and> (\<exists>s'. processDirective never_updates one_marker (directive ''a'' 1 0) = Done s'
         \<and> map_of (markers s') (marker_key (directive ''a'' 1 0)) = Some 5
         \<and> kids s' (rootObject one_marker) = [5])"
proof -
  have h1: "msg_action (directive ''a'' 1 0) = 0" by (simp add: directive_def)
  have h2: "map_of (markers one_marker) (marker_key (directive ''a'' 1 0)) = Some 3"
    by (simp add: one_marker_state key_a1)
  have h3: "kids one_marker 3 = [2]" by (simp add: one_marker_state)
  have h4: "marker_data one_marker 2 = Some (directive ''a'' 1 0)" by (simp add: one_marker_state)
  have h5: "\<not> never_updates (directive ''a'' 1 0) (directive ''a'' 1 0)"
    by (simp add: never_updates_def)
  have h6: "rootObject one_marker < next_ref one_marker" by (simp add: one_marker_state)
  have h7: "3 \<noteq> rootObject one_marker" by (simp add: one_marker_state)
  have k: "kids one_marker (rootObject one_marker) = [3]" "next_ref one_marker = 4"
    by (simp_all add: one_marker_state)
  from failed_update_reinserts [where upd = never_updates and s = one_marker
      and message = "directive ''a'' 1 0" and node = 3 and child = 2 and rest = "[]"
      and shown = "directive ''a'' 1 0", OF h1 h2 h3 h4 h5 h6 h7] k
  have "\<exists>s'. processDirective never_updates one_marker (directive ''a'' 1 0) = Done s'
         \<and> map_of (markers s') (marker_key (directive ''a'' 1 0)) = Some 5
         \<and> kids s' (rootObject one_marker) = [5]"
    by auto
  with h1 h2 h3 h4 h5 h6 h7 show ?thesis by simp
qed

text \<open>
  C6: a DELETE directive whose key is absent leaves the client as it was and raises nothing.
  When the key is bound to a node, the directive unsubscribes the node's frame tracking,
  detaches the node from the root, invokes the disposal hook of each child of the node once,
  in that order, and removes the registry entry.
\<close>

theorem delete_directive:
  assumes "msg_action message = 2"
  shows "(map_of (markers s) (marker_key message) = None
            \<longrightarrow> processDirective upd s message = Done s)
       \<and> (\<forall>node. map_of (markers s) (marker_key message) = Some node \<and> node \<noteq> rootObject s
            \<longrightarrow> (\<exists>s'. processDirective upd s message = Done s'
                 \<and> trace s' = trace s @ [UnsubscribeTf node]
                     @ (if node \<in> set (kids s (rootObject s))
                        then [Detached (rootObject s) node] else [])
                     @ map Dispose (kids s node)
                 \<and> rootObject s' = rootObject s
                 \<and> kids s' (rootObject s) = remove1 node (kids s (rootObject s))
                 \<and> (distinct (kids s (rootObject s)) \<longrightarrow> node \<notin> set (kids s' (rootObject s)))
                 \<and> map_of (markers s') (marker_key message) = None))"
proof (intro conjI allI impI)
  assume "map_of (markers s) (marker_key message) = None"
  with assms show "processDirective upd s message = Done s"
    by (simp add: processDirective_def removeMarker_absent)
next
  fix node
  assume h: "map_of (markers s) (marker_key message) = Some node \<and> node \<noteq> rootObject s"
  then have r: "removeMarker (marker_key message) s =
     s\<lparr>kids := (kids s)(rootObject s := remove1 node (kids s (rootObject s))),
       trace := trace s @ [UnsubscribeTf node]
                @ (if node \<in> set (kids s (rootObject s)) then [Detached (rootObject s) node] else [])
                @ map Dispose (kids s node),
       markers := AList.delete (marker_key message) (markers s)\<rparr>"
    by (simp add: removeMarker_present)
  from assms have p: "processDirective upd s message = Done (removeMarker (marker_key message) s)"
    by (simp add: processDirective_def)
  show "\<exists>s'. processDirective upd s message = Done s'
                 \<and> trace s' = trace s @ [UnsubscribeTf node]
                     @ (if node \<in> set (kids s (rootObject s))
                        then [Detached (rootObject s) node] else [])
                     @ map Dispose (kids s node)
                 \<and> rootObject s' = rootObject s
                 \<and> kids s' (rootObject s) = remove1 node (kids s (rootObject s))
                 \<and> (distinct (kids s (rootObject s)) \<longrightarrow> node \<notin> set (kids s' (rootObject s)))
                 \<and> map_of (markers s') (marker_key message) = None"
    unfolding p r by (simp add: delete_conv)
qed


theorem delete_directive_witness:
  "msg_action (directive ''a'' 1 2) = 2
   \<and> map_of (markers one_marker) (marker_key (directive ''a'' 1 2)) = Some 3
   \<and> 3 \<noteq> rootObject one_marker
   \<and> distinct (kids one_marker (rootObject one_marker))
   \<and> (\<exists>s'. processDirective never_updates one_marker (directive ''a'' 1 2) = Done s'
         \<and> trace s' = trace one_marker @ [UnsubscribeTf 3, Detached 1 3, Dispose 2]
         \<and> kids s' (rootObject one_marker) = []
         \<and> map_of (markers s') (marker_key (directive ''a'' 1 2)) = None)
   \<and> map_of (markers one_marker) (marker_key (directive ''b'' 1 2)) = None
   \<and> processDirective never_updates one_marker (directive ''b'' 1 2) = Done one_marker"
proof -
  have h1: "msg_action (directive ''a'' 1 2) = 2" "msg_action (directive ''b'' 1 2) = 2"
    by (simp_all add: directive_def)
  have h2: "map_of (markers one_marker) (marker_key (directive ''a'' 1 2)) = Some 3"
    by (simp add: one_marker_state key_a1)
  have h3: "3 \<noteq> rootObject one_marker" by (simp add: one_marker_state)
  have h4: "map_of (markers one_marker) (marker_key (directive ''b'' 1 2)) = None"
    by (simp add: one_marker_state key_b1)
  have k: "kids one_marker (rootObject one_marker) = [3]" "kids one_marker 3 = [2]"
    "rootObject one_marker = 1"
    by (simp_all add: one_marker_state)
  from delete_directive [OF h1(1), of one_marker never_updates] h2 h3 k
  have "\<exists>s'. processDirective never_updates one_marker (directive ''a'' 1 2) = Done s'
         \<and> trace s' = trace one_marker @ [UnsubscribeTf 3, Detached 1 3, Dispose 2]
         \<and> kids s' (rootObject one_marker) = []
         \<and> map_of (markers s') (marker_key (directive ''a'' 1 2)) = None"
    by auto
  moreover from delete_directive [OF h1(2), of one_marker never_updates] h4
  have "processDirective never_updates one_marker (directive ''b'' 1 2) = Done one_marker"
    by simp
  ultimately show ?thesis using h1 h2 h3 h4 k by simp
qed

section \<open>Claims about construction and unsubscription\<close>

lemma unsubscribe_twice: "unsubscribe (unsubscribe s) = unsubscribe s"
  by (simp add: unsubscribe_def topic_unsubscribe_def split: option.splits)

lemma unsubscribe_idle: "\<not> listening s \<Longrightarrow> unsubscribe s = s"
  by (cases "rosTopic s") (simp_all add: unsubscribe_def listening_def topic_unsubscribe_def)

lemma unsubscribe_not_listening: "\<not> listening (unsubscribe s)"
  by (simp add: unsubscribe_def listening_def topic_unsubscribe_def split: option.splits)

lemma fresh_grid_client:
  "OccupancyGridClient empty_scene None =
     \<lparr>kids = (\<lambda>r. []), next_ref = 2, trace = [],
      ros = JUndefined, topicName = JStr ''/map'', tfClient = JUndefined, rootObject = 1,
      rosTopic = Some \<lparr>t_name = JStr ''/map'', t_messageType = ''nav_msgs/OccupancyGrid'',
            t_compression = JStr ''cbor'', t_queue_length = Some 1, t_subscribed = True\<rparr>,
      compression = JStr ''cbor'', continuous = JUndefined, offsetPose = identity_pose,
      sceneNode = None, color = white, opacity = JNum 1, currentGrid = None,
      grid_data = Map.empty\<rparr>"
  by (simp add: OccupancyGridClient_def OccupancyGridClient_subscribe_def root_or_new_def
      options_or_empty_def no_options_def new_object_def empty_scene_def unsubscribe_def
      topic_subscribe_def js_or_def fun_eq_iff)

lemma fresh_octree_client:
  "OcTreeClient empty_scene None =
     \<lparr>kids = (\<lambda>r. []), next_ref = 2, trace = [],
      ros = JUndefined, topicName = JStr ''/octomap'', tfClient = JUndefined, rootObject = 1,
      rosTopic = Some \<lparr>t_name = JStr ''/octomap'', t_messageType = ''octomap_msgs/Octomap'',
            t_compression = JStr ''cbor'', t_queue_length = Some 1, t_subscribed = True\<rparr>,
      compression = JStr ''cbor'', continuous = JUndefined, offsetPose = identity_pose,
      sceneNode = None, options = [], currentMap = None, microtasks = []\<rparr>"
  by (simp add: OcTreeClient_def OcTreeClient_subscribe_def root_or_new_def converter_options_def
      options_or_empty_def no_options_def new_object_def empty_scene_def unsubscribe_def
      topic_subscribe_def js_or_def fun_eq_iff)

text \<open>
  C7: for each of the three clients and every client state, \<open>unsubscribe\<close> called twice
  gives the state that one call gives, \<open>unsubscribe\<close> on a client with no active
  subscription changes nothing, and after \<open>unsubscribe\<close> the client records no active
  subscription.
\<close>

theorem unsubscribe_idempotent:
  fixes m :: marker_client and g :: grid_client and t :: octree_client
  shows "unsubscribe (unsubscribe m) = unsubscribe m
       \<and> (\<not> listening m \<longrightarrow> unsubscribe m = m) \<and> \<not> listening (unsubscribe m)
       \<and> unsubscribe (unsubscribe g) = unsubscribe g
       \<and> (\<not> listening g \<longrightarrow> unsubscribe g = g) \<and> \<not> listening (unsubscribe g)
       \<and> unsubscribe (unsubscribe t) = unsubscribe t
       \<and> (\<not> listening t \<longrightarrow> unsubscribe t = t) \<and> \<not> listening (unsubscribe t)"
  by (simp add: unsubscribe_twice unsubscribe_idle unsubscribe_not_listening)

theorem unsubscribe_idempotent_witness:
  "\<not> listening (unsubscribe (MarkerArrayClient empty_scene None))
   \<and> unsubscribe (unsubscribe (MarkerArrayClient empty_scene None))
       = unsubscribe (MarkerArrayClient empty_scene None)
   \<and> \<not> listening (unsubscribe (OccupancyGridClient empty_scene None))
   \<and> unsubscribe (unsubscribe (OccupancyGridClient empty_scene None))
       = unsubscribe (OccupancyGridClient empty_scene None)
   \<and> \<not> listening (unsubscribe (OcTreeClient empty_scene None))
   \<and> unsubscribe (unsubscribe (OcTreeClient empty_scene None))
       = unsubscribe (OcTreeClient empty_scene None)
   \<and> listening (MarkerArrayClient empty_scene None)"
proof -
  have a: "\<not> listening (unsubscribe (MarkerArrayClient empty_scene None))"
    and b: "\<not> listening (unsubscribe (OccupancyGridClient empty_scene None))"
    and c: "\<not> listening (unsubscribe (OcTreeClient empty_scene None))"
    and d: "listening (MarkerArrayClient empty_scene None)"
    by (simp_all add: fresh_marker_client fresh_grid_client fresh_octree_client
        unsubscribe_def listening_def topic_unsubscribe_def)
  from unsubscribe_idempotent [of "unsubscribe (MarkerArrayClient empty_scene None)"
      "unsubscribe (OccupancyGridClient empty_scene None)"
      "unsubscribe (OcTreeClient empty_scene None)"] a b c d
  show ?thesis by simp
qed

text \<open>
  C10: the grid client takes its defaults with \<open>||\<close>. An opacity of 0 is falsy, so the
  client gets the default opacity 1 and is the client that no opacity at all would give;
  in the same way every falsy colour gives the default colour.
\<close>

theorem grid_falsy_opacity_and_color:
  "opacity (OccupancyGridClient sc (Some (opts\<lparr>o_opacity := JNum 0\<rparr>))) = JNum 1
   \<and> OccupancyGridClient sc (Some (opts\<lparr>o_opacity := JNum 0\<rparr>))
       = OccupancyGridClient sc (Some (opts\<lparr>o_opacity := JUndefined\<rparr>))
   \<and> (\<not> truthy c \<longrightarrow>
        color (OccupancyGridClient sc (Some (opts\<lparr>o_color := c\<rparr>))) = white
        \<and> OccupancyGridClient sc (Some (opts\<lparr>o_color := c\<rparr>))
           = OccupancyGridClient sc (Some (opts\<lparr>o_color := JUndefined\<rparr>)))"
  by (simp add: OccupancyGridClient_def OccupancyGridClient_subscribe_def js_or_def
      options_or_empty_def unsubscribe_def Let_def split: prod.splits)

theorem grid_falsy_opacity_and_color_witness:
  "\<not> truthy JNull
   \<and> color (OccupancyGridClient empty_scene (Some (no_options\<lparr>o_color := JNull\<rparr>))) = white
   \<and> OccupancyGridClient empty_scene (Some (no_options\<lparr>o_color := JNull\<rparr>))
       = OccupancyGridClient empty_scene (Some (no_options\<lparr>o_color := JUndefined\<rparr>))
   \<and> opacity (OccupancyGridClient empty_scene (Some (no_options\<lparr>o_opacity := JNum 0\<rparr>))) = JNum 1"
proof -
  have h: "\<not> truthy JNull" by simp
  from grid_falsy_opacity_and_color [of empty_scene no_options JNull] h
  show ?thesis by blast
qed

lemma converter_options_forwarded:
  "map_of (converter_options opts) ''colorMode''
     = (if o_colorMode opts = JUndefined then None else Some (o_colorMode opts))"
  "map_of (converter_options opts) ''palette''
     = (if o_palette opts = JUndefined then None else Some (o_palette opts))"
  "map_of (converter_options opts) ''voxelRenderMode''
     = (if o_voxelRenderMode opts = JUndefined then None else Some (o_voxelRenderMode opts))"
  "map_of (converter_options opts) ''paletteScale''
     = (if o_paletteScale opts = JUndefined then None else Some (o_palette opts))"
  by (simp_all add: converter_options_def update_conv' Let_def)

text \<open>
  C9 fails for \<open>paletteScale\<close>: the constructor stores \<open>options.palette\<close> under that
  key. With only \<open>paletteScale: 2\<close> given, the builder receives \<open>paletteScale\<close> as
  \<open>undefined\<close>; with a palette given as well, it receives the palette as the scale.
\<close>

theorem paletteScale_gets_palette:
  "options (OcTreeClient empty_scene (Some (no_options\<lparr>o_paletteScale := JNum 2\<rparr>)))
     = [(''paletteScale'', JUndefined)]
   \<and> options (OcTreeClient empty_scene
        (Some (no_options\<lparr>o_palette := JArr [JStr ''red''], o_paletteScale := JNum 2\<rparr>)))
     = [(''palette'', JArr [JStr ''red'']), (''paletteScale'', JArr [JStr ''red''])]
   \<and> fst (loadOcTree always_builds
        (OcTreeClient empty_scene (Some (no_options\<lparr>o_paletteScale := JNum 2\<rparr>)))
        (octomap_message ''OcTree''))
     = Inr \<lparr>ot_ctor = ''OcTree'',
            ot_options = [(''resolution'', JNum 1), (''paletteScale'', JUndefined)],
            ot_object = 2\<rparr>"
  by (simp add: OcTreeClient_def OcTreeClient_subscribe_def root_or_new_def converter_options_def
      options_or_empty_def no_options_def new_object_def empty_scene_def unsubscribe_def
      loadOcTree_def object_assign_def octomap_message_def always_builds_def ctorTable_def log_def)

section \<open>Facts about the grid and octree clients\<close>

lemma run_not_listening:
  assumes "\<And>s m. \<not> listening s \<Longrightarrow> d s m = Done s"
  shows "\<not> listening s \<Longrightarrow> run d s ms = s"
  by (induction ms) (simp_all add: run_def assms)

lemma grid_deliver_idle: "\<not> listening s \<Longrightarrow> OccupancyGridClient_deliver s m = Done s"
  by (simp add: OccupancyGridClient_deliver_def)

lemma octree_deliver_idle: "\<not> listening s \<Longrightarrow> OcTreeClient_deliver builds s m = Done s"
  by (simp add: OcTreeClient_deliver_def)

lemma grid_constructed:
  "currentGrid (OccupancyGridClient sc opts) = None"
  "listening (OccupancyGridClient sc opts)"
  "continuous (OccupancyGridClient sc opts) = o_continuous (options_or_empty opts)"
  by (simp_all add: OccupancyGridClient_def OccupancyGridClient_subscribe_def listening_def
      topic_subscribe_def unsubscribe_def Let_def split: prod.splits)

lemma octree_constructed:
  "currentMap (OcTreeClient sc opts) = None"
  "sceneNode (OcTreeClient sc opts) = None"
  "microtasks (OcTreeClient sc opts) = []"
  "listening (OcTreeClient sc opts)"
  "continuous (OcTreeClient sc opts) = o_continuous (options_or_empty opts)"
  by (simp_all add: OcTreeClient_def OcTreeClient_subscribe_def listening_def
      topic_subscribe_def unsubscribe_def Let_def split: prod.splits)

lemma unsubscribe_unless_continuous_stops:
  "listening s \<Longrightarrow> \<not> truthy (continuous s)
     \<Longrightarrow> \<not> listening (state_of (unsubscribe_unless_continuous s))"
  by (cases "rosTopic s")
     (simp_all add: unsubscribe_unless_continuous_def listening_def topic_unsubscribe_def)

lemma installGrid_keeps:
  "rosTopic (installGrid m g s) = rosTopic s" "continuous (installGrid m g s) = continuous s"
  by (simp_all add: installGrid_def new_SceneNode_def new_object_def obj_add_def log_def Let_def
      split: option.splits)

lemma grid_first_message_stops:
  assumes "currentGrid s = None" and "listening s" and "\<not> truthy (continuous s)"
  shows "\<not> listening (state_of (OccupancyGridClient_deliver s m))"
proof -
  let ?s4 = "log (Emit ''change'')
     (installGrid m (next_ref s)
        (snd (new_OccupancyGrid m (color s) (opacity s) s)))"
  have p: "OccupancyGridClient_deliver s m = unsubscribe_unless_continuous ?s4"
    using assms(1,2)
    by (simp add: OccupancyGridClient_deliver_def OccupancyGridClient_processMessage_def
        releaseGrid_def new_OccupancyGrid_def new_object_def Let_def)
  have "listening ?s4" "\<not> truthy (continuous ?s4)"
    using assms(2,3)
    by (simp_all add: listening_def log_def installGrid_keeps new_OccupancyGrid_def new_object_def)
  then show ?thesis unfolding p by (rule unsubscribe_unless_continuous_stops)
qed

lemma replaceGeometry_keeps:
  "rosTopic (replaceGeometry job s) = rosTopic s"
  "continuous (replaceGeometry job s) = continuous s"
  "microtasks (replaceGeometry job s) = microtasks s"
  by (cases job; simp add: replaceGeometry_def new_SceneNode_def new_object_def obj_add_def
      obj_remove_def log_def Let_def split: option.splits)+

lemma foldl_replaceGeometry_keeps:
  "rosTopic (foldl (\<lambda>st job. replaceGeometry job st) s jobs) = rosTopic s"
  by (induction jobs arbitrary: s) (simp_all add: replaceGeometry_keeps)

lemma run_microtasks_keeps: "rosTopic (run_microtasks s) = rosTopic s"
  by (simp add: run_microtasks_def foldl_replaceGeometry_keeps)

lemma run_microtasks_none: "microtasks s = [] \<Longrightarrow> run_microtasks s = s"
  by (simp add: run_microtasks_def)

lemma loadOcTree_keeps:
  "rosTopic (snd (loadOcTree builds s m)) = rosTopic s"
  "continuous (snd (loadOcTree builds s m)) = continuous s"
  by (simp_all add: loadOcTree_def new_object_def log_def Let_def)

lemma processMessagePrivate_keeps:
  "rosTopic (processMessagePrivate builds s m) = rosTopic s"
  "continuous (processMessagePrivate builds s m) = continuous s"
  using loadOcTree_keeps [of builds s m]
  by (auto simp: processMessagePrivate_def split: prod.splits sum.splits)

lemma octree_message_stops:
  assumes "listening s" and "\<not> truthy (continuous s)"
  shows "\<not> listening (state_of (OcTreeClient_deliver builds s m))"
proof -
  let ?s2 = "processMessagePrivate builds s m"
  have p: "OcTreeClient_processMessage builds s m = unsubscribe_unless_continuous ?s2"
    by (simp add: OcTreeClient_processMessage_def built_tfClient_def split: option.splits)
  have "listening ?s2" "\<not> truthy (continuous ?s2)"
    using assms by (simp_all add: listening_def processMessagePrivate_keeps)
  then have "\<not> listening (state_of (unsubscribe_unless_continuous ?s2))"
    by (rule unsubscribe_unless_continuous_stops)
  then show ?thesis using assms(1)
    by (cases "unsubscribe_unless_continuous ?s2")
       (simp_all add: OcTreeClient_deliver_def p listening_def run_microtasks_keeps)
qed

text \<open>
  C5: a grid or octree client constructed with a falsy \<open>continuous\<close> (false, or left unset)
  listens when constructed; the first message delivered cancels the subscription, and any
  further messages handed to the transport leave the whole client state as it is.
\<close>

theorem single_shot_termination:
  assumes "\<not> truthy (o_continuous (options_or_empty opts))"
  shows "listening (OccupancyGridClient sc opts)
       \<and> \<not> listening (state_of (OccupancyGridClient_deliver (OccupancyGridClient sc opts) m))
       \<and> run OccupancyGridClient_deliver
            (state_of (OccupancyGridClient_deliver (OccupancyGridClient sc opts) m)) ms
          = state_of (OccupancyGridClient_deliver (OccupancyGridClient sc opts) m)
       \<and> listening (OcTreeClient sc opts)
       \<and> \<not> listening (state_of (OcTreeClient_deliver builds (OcTreeClient sc opts) om))
       \<and> run (OcTreeClient_deliver builds)
            (state_of (OcTreeClient_deliver builds (OcTreeClient sc opts) om)) oms
          = state_of (OcTreeClient_deliver builds (OcTreeClient sc opts) om)"
proof -
  have g: "\<not> listening (state_of (OccupancyGridClient_deliver (OccupancyGridClient sc opts) m))"
    using assms by (intro grid_first_message_stops) (simp_all add: grid_constructed)
  have t: "\<not> listening (state_of (OcTreeClient_deliver builds (OcTreeClient sc opts) om))"
    using assms by (intro octree_message_stops) (simp_all add: octree_constructed)
  from g have "run OccupancyGridClient_deliver
            (state_of (OccupancyGridClient_deliver (OccupancyGridClient sc opts) m)) ms
          = state_of (OccupancyGridClient_deliver (OccupancyGridClient sc opts) m)"
    by (rule run_not_listening [rotated]) (rule grid_deliver_idle)
  moreover from t have "run (OcTreeClient_deliver builds)
            (state_of (OcTreeClient_deliver builds (OcTreeClient sc opts) om)) oms
          = state_of (OcTreeClient_deliver builds (OcTreeClient sc opts) om)"
    by (rule run_not_listening [rotated]) (rule octree_deliver_idle)
  ultimately show ?thesis using g t by (simp add: grid_constructed octree_constructed)
qed

theorem single_shot_termination_witness:
  "\<not> truthy (o_continuous (options_or_empty (Some (no_options\<lparr>o_continuous := JBool False\<rparr>))))
   \<and> \<not> listening (state_of (OccupancyGridClient_deliver
        (OccupancyGridClient empty_scene (Some (no_options\<lparr>o_continuous := JBool False\<rparr>)))
        grid_message))
   \<and> run OccupancyGridClient_deliver
        (state_of (OccupancyGridClient_deliver
           (OccupancyGridClient empty_scene (Some (no_options\<lparr>o_continuous := JBool False\<rparr>)))
           grid_message)) [grid_message]
      = state_of (OccupancyGridClient_deliver
           (OccupancyGridClient empty_scene (Some (no_options\<lparr>o_continuous := JBool False\<rparr>)))
           grid_message)
   \<and> \<not> listening (state_of (OcTreeClient_deliver always_builds
        (OcTreeClient empty_scene (Some (no_options\<lparr>o_continuous := JBool False\<rparr>)))
        (octomap_message ''OcTree'')))
   \<and> \<not> truthy (o_continuous (options_or_empty None))
   \<and> \<not> listening (state_of (OccupancyGridClient_deliver
        (OccupancyGridClient empty_scene None) grid_message))
   \<and> run (OcTreeClient_deliver always_builds)
        (state_of (OcTreeClient_deliver always_builds (OcTreeClient empty_scene None)
           (octomap_message ''OcTree''))) [octomap_message ''ColorOcTree'']
      = state_of (OcTreeClient_deliver always_builds (OcTreeClient empty_scene None)
           (octomap_message ''OcTree''))"
proof -
  have h: "\<not> truthy (o_continuous (options_or_empty (Some (no_options\<lparr>o_continuous := JBool False\<rparr>))))"
    by (simp add: options_or_empty_def)
  have u: "\<not> truthy (o_continuous (options_or_empty None))"
    by (simp add: options_or_empty_def no_options_def)
  from single_shot_termination [OF h, of empty_scene grid_message "[grid_message]"
      always_builds "octomap_message ''OcTree''" "[]"]
    single_shot_termination [OF u, of empty_scene grid_message "[]"
      always_builds "octomap_message ''OcTree''" "[octomap_message ''ColorOcTree'']"] h u
  show ?thesis by blast
qed

lemma tracking_octree_client:
  "OcTreeClient empty_scene (Some tracking_options) =
     \<lparr>kids = (\<lambda>r. []), next_ref = 2, trace = [],
      ros = JUndefined, topicName = JStr ''/octomap'', tfClient = JObj 0, rootObject = 1,
      rosTopic = Some \<lparr>t_name = JStr ''/octomap'', t_messageType = ''octomap_msgs/Octomap'',
            t_compression = JStr ''cbor'', t_queue_length = Some 1, t_subscribed = True\<rparr>,
      compression = JStr ''cbor'', continuous = JBool True, offsetPose = identity_pose,
      sceneNode = None, options = [], currentMap = None, microtasks = []\<rparr>"
  by (simp add: OcTreeClient_def OcTreeClient_subscribe_def root_or_new_def converter_options_def
      options_or_empty_def tracking_options_def no_options_def new_object_def empty_scene_def
      unsubscribe_def topic_subscribe_def js_or_def fun_eq_iff)

lemma octree_tracked_once_state:
  "octree_tracked_once =
     \<lparr>kids = (\<lambda>r. [])(3 := [2], 1 := [3]), next_ref = 4,
      trace = [ConsoleLog ''OcTree'', Attached 3 2, SubscribeTf 3 ''map'', Attached 1 3,
               Emit ''change''],
      ros = JUndefined, topicName = JStr ''/octomap'', tfClient = JObj 0, rootObject = 1,
      rosTopic = Some \<lparr>t_name = JStr ''/octomap'', t_messageType = ''octomap_msgs/Octomap'',
            t_compression = JStr ''cbor'', t_queue_length = Some 1, t_subscribed = True\<rparr>,
      compression = JStr ''cbor'', continuous = JBool True, offsetPose = identity_pose,
      sceneNode = Some 3, options = [],
      currentMap = Some \<lparr>ot_ctor = ''OcTree'', ot_options = [(''resolution'', JNum 1)],
                          ot_object = 2\<rparr>,
      microtasks = []\<rparr>"
  unfolding octree_tracked_once_def tracking_octree_client
  by (simp add: OcTreeClient_deliver_def listening_def OcTreeClient_processMessage_def
      processMessagePrivate_def loadOcTree_def object_assign_def octomap_message_def
      always_builds_def ctorTable_def unsubscribe_unless_continuous_def run_microtasks_def
      replaceGeometry_def new_SceneNode_def new_object_def obj_add_def log_def fun_eq_iff)

lemma loadOcTree_unknown:
  assumes "\<not> om_binary message" and "om_id message \<notin> {''OcTree'', ''ColorOcTree''}"
  shows "loadOcTree builds s message =
     (Inl ''TypeError'',
      if om_id message \<in> set object_prototype_keys then log (ConsoleLog (om_id message)) s else s)"
  using assms by (simp add: loadOcTree_def ctorTable_def Let_def)

lemma processMessage_unknown:
  assumes "\<not> om_binary message" and "om_id message \<notin> {''OcTree'', ''ColorOcTree''}"
  shows "OcTreeClient_processMessage builds s message =
     unsubscribe_unless_continuous
       (if om_id message \<in> set object_prototype_keys then log (ConsoleLog (om_id message)) s else s)"
  by (simp add: OcTreeClient_processMessage_def processMessagePrivate_def built_tfClient_def
      loadOcTree_unknown [OF assms] split: option.splits)

lemma unsubscribe_unless_continuous_fields:
  "microtasks (state_of (unsubscribe_unless_continuous s)) = microtasks s"
  "currentMap (state_of (unsubscribe_unless_continuous s)) = currentMap s"
  "sceneNode (state_of (unsubscribe_unless_continuous s)) = sceneNode s"
  "kids (state_of (unsubscribe_unless_continuous s)) = kids s"
  "trace (state_of (unsubscribe_unless_continuous s)) = trace s"
  by (simp_all add: unsubscribe_unless_continuous_def split: option.splits)

lemma deliver_quiescent:
  assumes "microtasks (state_of (OcTreeClient_processMessage builds s message)) = []"
      and "listening s"
  shows "state_of (OcTreeClient_deliver builds s message)
       = state_of (OcTreeClient_processMessage builds s message)"
  using assms
  by (cases "OcTreeClient_processMessage builds s message")
     (simp_all add: OcTreeClient_deliver_def run_microtasks_none)

text \<open>
  C4: for a message that is not binary-encoded and whose type discriminator is neither
  \<open>OcTree\<close> nor \<open>ColorOcTree\<close>, the decode stage is rejected and produces no tree, no
  install step is queued, and handling the message leaves the current map, the scene node
  and every child list as they were and emits no event (at most a console log is written).
  A client that has just been constructed still has no current map afterwards.
\<close>

theorem unknown_discriminator:
  assumes "\<not> om_binary message" and "om_id message \<notin> {''OcTree'', ''ColorOcTree''}"
  shows "fst (loadOcTree builds s message) = Inl ''TypeError''
       \<and> microtasks (state_of (OcTreeClient_processMessage builds s message)) = microtasks s
       \<and> currentMap (state_of (OcTreeClient_processMessage builds s message)) = currentMap s
       \<and> sceneNode (state_of (OcTreeClient_processMessage builds s message)) = sceneNode s
       \<and> kids (state_of (OcTreeClient_processMessage builds s message)) = kids s
       \<and> trace (state_of (OcTreeClient_processMessage builds s message))
           = trace s @ (if om_id message \<in> set object_prototype_keys
                        then [ConsoleLog (om_id message)] else [])
       \<and> (microtasks s = [] \<longrightarrow>
            currentMap (state_of (OcTreeClient_deliver builds s message)) = currentMap s
          \<and> sceneNode (state_of (OcTreeClient_deliver builds s message)) = sceneNode s
          \<and> kids (state_of (OcTreeClient_deliver builds s message)) = kids s
          \<and> trace (state_of (OcTreeClient_deliver builds s message))
              = (if listening s \<and> om_id message \<in> set object_prototype_keys
                 then trace s @ [ConsoleLog (om_id message)] else trace s))
       \<and> currentMap (state_of (OcTreeClient_deliver builds (OcTreeClient sc opts) message)) = None"
proof -
  note p = processMessage_unknown [OF assms, of builds]
  have f: "microtasks (state_of (OcTreeClient_processMessage builds s message)) = microtasks s"
    "currentMap (state_of (OcTreeClient_processMessage builds s message)) = currentMap s"
    "sceneNode (state_of (OcTreeClient_processMessage builds s message)) = sceneNode s"
    "kids (state_of (OcTreeClient_processMessage builds s message)) = kids s"
    "trace (state_of (OcTreeClient_processMessage builds s message))
           = trace s @ (if om_id message \<in> set object_prototype_keys
                        then [ConsoleLog (om_id message)] else [])" for s
    by (simp_all add: p unsubscribe_unless_continuous_fields log_def)
  have q: "microtasks s = [] \<Longrightarrow> listening s \<Longrightarrow>
      state_of (OcTreeClient_deliver builds s message)
       = state_of (OcTreeClient_processMessage builds s message)" for s
    by (rule deliver_quiescent) (simp_all add: f)
  have i: "\<not> listening s \<Longrightarrow> state_of (OcTreeClient_deliver builds s message) = s" for s
    by (simp add: OcTreeClient_deliver_def)
  have d: "microtasks s = [] \<longrightarrow>
            currentMap (state_of (OcTreeClient_deliver builds s message)) = currentMap s
          \<and> sceneNode (state_of (OcTreeClient_deliver builds s message)) = sceneNode s
          \<and> kids (state_of (OcTreeClient_deliver builds s message)) = kids s
          \<and> trace (state_of (OcTreeClient_deliver builds s message))
              = (if listening s \<and> om_id message \<in> set object_prototype_keys
                 then trace s @ [ConsoleLog (om_id message)] else trace s)"
    by (cases "listening s") (simp_all add: q i f)
  have c: "currentMap (state_of (OcTreeClient_deliver builds (OcTreeClient sc opts) message)) = None"
    using q [of "OcTreeClient sc opts"]
    by (simp add: octree_constructed f)
  show ?thesis using d c by (simp add: f loadOcTree_unknown [OF assms])
qed

theorem unknown_discriminator_witness:
  "\<not> om_binary (octomap_message ''PointCloud'')
   \<and> om_id (octomap_message ''PointCloud'') \<notin> {''OcTree'', ''ColorOcTree''}
   \<and> microtasks octree_tracked_once = []
   \<and> fst (loadOcTree always_builds octree_tracked_once (octomap_message ''PointCloud''))
       = Inl ''TypeError''
   \<and> currentMap (state_of (OcTreeClient_deliver always_builds octree_tracked_once
        (octomap_message ''PointCloud''))) = currentMap octree_tracked_once
   \<and> kids (state_of (OcTreeClient_deliver always_builds octree_tracked_once
        (octomap_message ''PointCloud''))) = kids octree_tracked_once
   \<and> trace (state_of (OcTreeClient_deliver always_builds octree_tracked_once
        (octomap_message ''PointCloud''))) = trace octree_tracked_once
   \<and> currentMap (state_of (OcTreeClient_deliver always_builds (OcTreeClient empty_scene None)
        (octomap_message ''PointCloud''))) = None"
proof -
  have h1: "\<not> om_binary (octomap_message ''PointCloud'')"
    and h2: "om_id (octomap_message ''PointCloud'') \<notin> {''OcTree'', ''ColorOcTree''}"
    and h3: "om_id (octomap_message ''PointCloud'') \<notin> set object_prototype_keys"
    by (simp_all add: octomap_message_def object_prototype_keys_def)
  have h4: "microtasks octree_tracked_once = []"
    by (simp add: octree_tracked_once_state)
  from unknown_discriminator [OF h1 h2, of always_builds octree_tracked_once empty_scene None]
    h1 h2 h3 h4
  show ?thesis by simp
qed

lemma continuous_grid_client:
  "OccupancyGridClient empty_scene (Some continuous_options) =
     \<lparr>kids = (\<lambda>r. []), next_ref = 2, trace = [],
      ros = JUndefined, topicName = JStr ''/map'', tfClient = JUndefined, rootObject = 1,
      rosTopic = Some \<lparr>t_name = JStr ''/map'', t_messageType = ''nav_msgs/OccupancyGrid'',
            t_compression = JStr ''cbor'', t_queue_length = Some 1, t_subscribed = True\<rparr>,
      compression = JStr ''cbor'', continuous = JBool True, offsetPose = identity_pose,
      sceneNode = None, color = white, opacity = JNum 1, currentGrid = None,
      grid_data = Map.empty\<rparr>"
  by (simp add: OccupancyGridClient_def OccupancyGridClient_subscribe_def root_or_new_def
      options_or_empty_def continuous_options_def no_options_def new_object_def empty_scene_def
      unsubscribe_def topic_subscribe_def js_or_def fun_eq_iff)

lemma tracking_grid_client:
  "OccupancyGridClient empty_scene (Some tracking_options) =
     \<lparr>kids = (\<lambda>r. []), next_ref = 2, trace = [],
      ros = JUndefined, topicName = JStr ''/map'', tfClient = JObj 0, rootObject = 1,
      rosTopic = Some \<lparr>t_name = JStr ''/map'', t_messageType = ''nav_msgs/OccupancyGrid'',
            t_compression = JStr ''cbor'', t_queue_length = Some 1, t_subscribed = True\<rparr>,
      compression = JStr ''cbor'', continuous = JBool True, offsetPose = identity_pose,
      sceneNode = None, color = white, opacity = JNum 1, currentGrid = None,
      grid_data = Map.empty\<rparr>"
  by (simp add: OccupancyGridClient_def OccupancyGridClient_subscribe_def root_or_new_def
      options_or_empty_def tracking_options_def no_options_def new_object_def empty_scene_def
      unsubscribe_def topic_subscribe_def js_or_def fun_eq_iff)

lemmas grid_step =
  OccupancyGridClient_deliver_def listening_def OccupancyGridClient_processMessage_def
  releaseGrid_def built_tfClient_def new_OccupancyGrid_def installGrid_def
  unsubscribe_unless_continuous_def new_SceneNode_def new_object_def obj_add_def obj_remove_def
  log_def

lemma grid_shown_once_state:
  "grid_shown_once =
     \<lparr>kids = (\<lambda>r. [])(1 := [2]), next_ref = 3,
      trace = [Attached 1 2, Emit ''change''],
      ros = JUndefined, topicName = JStr ''/map'', tfClient = JUndefined, rootObject = 1,
      rosTopic = Some \<lparr>t_name = JStr ''/map'', t_messageType = ''nav_msgs/OccupancyGrid'',
            t_compression = JStr ''cbor'', t_queue_length = Some 1, t_subscribed = True\<rparr>,
      compression = JStr ''cbor'', continuous = JBool True, offsetPose = identity_pose,
      sceneNode = Some 2, color = white, opacity = JNum 1, currentGrid = Some 2,
      grid_data = [2 \<mapsto> (grid_message, white, JNum 1)]\<rparr>"
  unfolding grid_shown_once_def continuous_grid_client
  by (simp add: grid_step fun_eq_iff)

lemma grid_shown_twice_state:
  "OccupancyGridClient_deliver grid_shown_once grid_message = Done
     \<lparr>kids = (\<lambda>r. [])(1 := [2, 3]), next_ref = 4,
      trace = [Attached 1 2, Emit ''change'', Dispose 2, Attached 1 3, Emit ''change''],
      ros = JUndefined, topicName = JStr ''/map'', tfClient = JUndefined, rootObject = 1,
      rosTopic = Some \<lparr>t_name = JStr ''/map'', t_messageType = ''nav_msgs/OccupancyGrid'',
            t_compression = JStr ''cbor'', t_queue_length = Some 1, t_subscribed = True\<rparr>,
      compression = JStr ''cbor'', continuous = JBool True, offsetPose = identity_pose,
      sceneNode = Some 3, color = white, opacity = JNum 1, currentGrid = Some 3,
      grid_data = [2 \<mapsto> (grid_message, white, JNum 1), 3 \<mapsto> (grid_message, white, JNum 1)]\<rparr>"
  unfolding grid_shown_once_state
  by (simp add: grid_step fun_eq_iff)

lemma grid_tracked_once_state:
  "grid_tracked_once =
     \<lparr>kids = (\<lambda>r. [])(3 := [2], 1 := [3]), next_ref = 4,
      trace = [Attached 3 2, SubscribeTf 3 ''map'', Attached 1 3, Emit ''change''],
      ros = JUndefined, topicName = JStr ''/map'', tfClient = JObj 0, rootObject = 1,
      rosTopic = Some \<lparr>t_name = JStr ''/map'', t_messageType = ''nav_msgs/OccupancyGrid'',
            t_compression = JStr ''cbor'', t_queue_length = Some 1, t_subscribed = True\<rparr>,
      compression = JStr ''cbor'', continuous = JBool True, offsetPose = identity_pose,
      sceneNode = Some 3, color = white, opacity = JNum 1, currentGrid = Some 2,
      grid_data = [2 \<mapsto> (grid_message, white, JNum 1)]\<rparr>"
  unfolding grid_tracked_once_def tracking_grid_client
  by (simp add: grid_step grid_message_def fun_eq_iff)

lemma grid_tracked_twice_state:
  "OccupancyGridClient_deliver grid_tracked_once grid_message = Done
     \<lparr>kids = (\<lambda>r. [])(3 := [4], 1 := [3]), next_ref = 5,
      trace = [Attached 3 2, SubscribeTf 3 ''map'', Attached 1 3, Emit ''change'',
               Detached 3 2, Dispose 2, Attached 3 4, Emit ''change''],
      ros = JUndefined, topicName = JStr ''/map'', tfClient = JObj 0, rootObject = 1,
      rosTopic = Some \<lparr>t_name = JStr ''/map'', t_messageType = ''nav_msgs/OccupancyGrid'',
            t_compression = JStr ''cbor'', t_queue_length = Some 1, t_subscribed = True\<rparr>,
      compression = JStr ''cbor'', continuous = JBool True, offsetPose = identity_pose,
      sceneNode = Some 3, color = white, opacity = JNum 1, currentGrid = Some 4,
      grid_data = [2 \<mapsto> (grid_message, white, JNum 1), 4 \<mapsto> (grid_message, white, JNum 1)]\<rparr>"
  unfolding grid_tracked_once_state
  by (simp add: grid_step fun_eq_iff)

lemma octree_tracked_twice_state:
  "OcTreeClient_deliver always_builds octree_tracked_once (octomap_message ''OcTree'') = Done
     \<lparr>kids = (\<lambda>r. [])(3 := [2], 5 := [4], 1 := [5]), next_ref = 6,
      trace = [ConsoleLog ''OcTree'', Attached 3 2, SubscribeTf 3 ''map'', Attached 1 3,
               Emit ''change'',
               ConsoleLog ''OcTree'', Attached 5 4, SubscribeTf 5 ''map'', Detached 1 3,
               Attached 1 5, Emit ''change''],
      ros = JUndefined, topicName = JStr ''/octomap'', tfClient = JObj 0, rootObject = 1,
      rosTopic = Some \<lparr>t_name = JStr ''/octomap'', t_messageType = ''octomap_msgs/Octomap'',
            t_compression = JStr ''cbor'', t_queue_length = Some 1, t_subscribed = True\<rparr>,
      compression = JStr ''cbor'', continuous = JBool True, offsetPose = identity_pose,
      sceneNode = Some 5, options = [],
      currentMap = Some \<lparr>ot_ctor = ''OcTree'', ot_options = [(''resolution'', JNum 1)],
                          ot_object = 4\<rparr>,
      microtasks = []\<rparr>"
  unfolding octree_tracked_once_state
  by (simp add: OcTreeClient_deliver_def listening_def OcTreeClient_processMessage_def
      built_tfClient_def
      processMessagePrivate_def loadOcTree_def object_assign_def octomap_message_def
      always_builds_def ctorTable_def unsubscribe_unless_continuous_def run_microtasks_def
      replaceGeometry_def new_SceneNode_def new_object_def obj_add_def obj_remove_def log_def
      fun_eq_iff)

text \<open>
  C3 fails on the grid client without frame tracking: there \<open>this.sceneNode\<close> is the grid
  itself, so \<open>this.sceneNode.remove(this.currentGrid)\<close> asks the old grid to remove itself
  from its own children and detaches nothing. After the second message the root holds the
  disposed first grid and the second grid. With frame tracking, and in the octree client,
  the second message leaves one child on the root.
\<close>

theorem grid_without_tracking_keeps_old_grid:
  "tfClient grid_shown_once = JUndefined
   \<and> currentGrid grid_shown_once = Some 2
   \<and> kids grid_shown_once (rootObject grid_shown_once) = [2]
   \<and> kids (state_of (OccupancyGridClient_deliver grid_shown_once grid_message))
        (rootObject grid_shown_once) = [2, 3]
   \<and> currentGrid (state_of (OccupancyGridClient_deliver grid_shown_once grid_message)) = Some 3
   \<and> trace (state_of (OccupancyGridClient_deliver grid_shown_once grid_message))
       = trace grid_shown_once @ [Dispose 2, Attached 1 3, Emit ''change'']
   \<and> kids grid_tracked_once (rootObject grid_tracked_once) = [3]
   \<and> kids (state_of (OccupancyGridClient_deliver grid_tracked_once grid_message))
        (rootObject grid_tracked_once) = [3]
   \<and> kids octree_tracked_once (rootObject octree_tracked_once) = [3]
   \<and> kids (state_of (OcTreeClient_deliver always_builds octree_tracked_once
        (octomap_message ''OcTree''))) (rootObject octree_tracked_once) = [5]"
  unfolding grid_shown_twice_state grid_tracked_twice_state octree_tracked_twice_state
  by (simp add: grid_shown_once_state grid_tracked_once_state octree_tracked_once_state)

text \<open>
  C2, as stated, fails. The octree client replaces its tree and its scene node without
  unsubscribing the old node's frame tracking and without disposing anything; the grid
  client with frame tracking disposes the old grid but keeps the one scene node, whose
  tracking stays subscribed.
\<close>

theorem replacement_without_release:
  "sceneNode octree_tracked_once = Some 3
   \<and> map_option ot_object (currentMap octree_tracked_once) = Some 2
   \<and> SubscribeTf 3 ''map'' \<in> set (trace octree_tracked_once)
   \<and> sceneNode (state_of (OcTreeClient_deliver always_builds octree_tracked_once
        (octomap_message ''OcTree''))) = Some 5
   \<and> map_option ot_object (currentMap (state_of (OcTreeClient_deliver always_builds
        octree_tracked_once (octomap_message ''OcTree'')))) = Some 4
   \<and> UnsubscribeTf 3 \<notin> set (trace (state_of (OcTreeClient_deliver always_builds
        octree_tracked_once (octomap_message ''OcTree''))))
   \<and> Dispose 2 \<notin> set (trace (state_of (OcTreeClient_deliver always_builds
        octree_tracked_once (octomap_message ''OcTree''))))
   \<and> sceneNode grid_tracked_once = Some 3
   \<and> currentGrid grid_tracked_once = Some 2
   \<and> SubscribeTf 3 ''map'' \<in> set (trace grid_tracked_once)
   \<and> currentGrid (state_of (OccupancyGridClient_deliver grid_tracked_once grid_message)) = Some 4
   \<and> trace (state_of (OccupancyGridClient_deliver grid_tracked_once grid_message))
       = trace grid_tracked_once @ [Detached 3 2, Dispose 2, Attached 3 4, Emit ''change'']"
  unfolding octree_tracked_twice_state grid_tracked_twice_state
  by (simp add: octree_tracked_once_state grid_tracked_once_state)

lemma grid_replace_trace:
  assumes "currentGrid s = Some g" and "sceneNode s = Some host"
      and "host < next_ref s" and "rootObject s < next_ref s"
  shows "trace (state_of (OccupancyGridClient_processMessage s message))
           = trace s @ (if g \<in> set (kids s host) then [Detached host g] else [])
             @ [Dispose g,
                Attached (if truthy (tfClient s) then host else rootObject s) (next_ref s),
                Emit ''change'']"
    and "currentGrid (state_of (OccupancyGridClient_processMessage s message)) = Some (next_ref s)"
  using assms
  by (simp_all add: OccupancyGridClient_processMessage_def releaseGrid_def built_tfClient_def
      new_OccupancyGrid_def installGrid_def unsubscribe_unless_continuous_def new_object_def
      obj_add_def obj_remove_def log_def Let_def split: option.splits)

lemma grid_wf_constructed:
  "root_in_scene sc opts \<Longrightarrow> grid_wf (OccupancyGridClient sc opts)"
  by (simp add: grid_wf_def root_in_scene_def OccupancyGridClient_def
      OccupancyGridClient_subscribe_def root_or_new_def new_object_def unsubscribe_def Let_def
      split: option.splits)

lemma grid_wf_log: "grid_wf (log e s) = grid_wf s"
  by (simp add: grid_wf_def log_def split: option.splits)

lemma grid_wf_unsubscribe:
  "grid_wf s \<Longrightarrow> grid_wf (state_of (unsubscribe_unless_continuous s))"
  by (simp add: grid_wf_def unsubscribe_unless_continuous_def split: option.splits)

lemma grid_wf_release: "grid_wf s \<Longrightarrow> grid_wf (state_of (releaseGrid s))"
  by (simp add: grid_wf_def releaseGrid_def built_tfClient_def obj_remove_def log_def
      split: option.splits)

lemma new_OccupancyGrid_fst: "fst (new_OccupancyGrid m c o' s) = next_ref s"
  by (simp add: new_OccupancyGrid_def new_object_def)

lemma grid_wf_install:
  assumes "grid_wf s"
  shows "grid_wf (installGrid m (next_ref s) (snd (new_OccupancyGrid m c o' s)))"
proof (cases "sceneNode s")
  case None
  with assms show ?thesis
    by (simp add: grid_wf_def installGrid_def new_OccupancyGrid_def new_SceneNode_def
        new_object_def obj_add_def log_def)
next
  case (Some host)
  with assms show ?thesis
    by (simp add: grid_wf_def installGrid_def new_OccupancyGrid_def new_object_def obj_add_def
        log_def)
qed

lemma processMessage_after_release:
  "OccupancyGridClient_processMessage s message =
     (case releaseGrid s of
        Threw e s1 \<Rightarrow> Threw e s1
      | Done s1 \<Rightarrow> unsubscribe_unless_continuous (log (Emit ''change'')
          (installGrid message (next_ref s1)
             (snd (new_OccupancyGrid message (color s1) (opacity s1) s1)))))"
  by (simp add: OccupancyGridClient_processMessage_def new_OccupancyGrid_def new_object_def
      split: outcome.splits)

lemma grid_wf_processMessage:
  assumes "grid_wf s"
  shows "grid_wf (state_of (OccupancyGridClient_processMessage s message))"
proof (cases "releaseGrid s")
  case (Done s1)
  with grid_wf_release [OF assms] have "grid_wf s1" by simp
  then show ?thesis
    by (simp add: processMessage_after_release Done grid_wf_unsubscribe grid_wf_log
        grid_wf_install)
next
  case (Threw e s1)
  with grid_wf_release [OF assms] show ?thesis
    by (simp add: processMessage_after_release)
qed

lemma grid_wf_deliver:
  "grid_wf s \<Longrightarrow> grid_wf (state_of (OccupancyGridClient_deliver s message))"
  by (simp add: OccupancyGridClient_deliver_def grid_wf_processMessage)

lemma grid_wf_run: "grid_wf s \<Longrightarrow> grid_wf (run OccupancyGridClient_deliver s ms)"
  by (induction ms arbitrary: s) (simp_all add: run_def grid_wf_deliver)

text \<open>
  C2, amended, for the grid client: after any sequence of delivered messages, when a grid
  is displayed and a further message is processed, the displayed grid is detached from the
  scene node if it is among the node's children, then its disposal hook is invoked, and
  only then the new grid is attached (to the scene node when frame tracking is configured,
  to the root otherwise) and "change" is emitted. No frame tracking is unsubscribed: with
  frame tracking the one scene node is kept and reused.
\<close>

theorem grid_replacement_disposes_previous:
  assumes "root_in_scene sc opts"
      and "s = run OccupancyGridClient_deliver (OccupancyGridClient sc opts) ms"
      and "currentGrid s = Some g"
  shows "\<exists>host. sceneNode s = Some host
       \<and> trace (state_of (OccupancyGridClient_processMessage s message))
           = trace s @ (if g \<in> set (kids s host) then [Detached host g] else [])
             @ [Dispose g,
                Attached (if truthy (tfClient s) then host else rootObject s) (next_ref s),
                Emit ''change'']
       \<and> currentGrid (state_of (OccupancyGridClient_processMessage s message)) = Some (next_ref s)"
proof -
  from assms(1,2) have wf: "grid_wf s" by (simp add: grid_wf_constructed grid_wf_run)
  with assms(3) obtain host where h: "sceneNode s = Some host" "host < next_ref s"
    by (cases "sceneNode s") (simp_all add: grid_wf_def)
  from wf have r: "rootObject s < next_ref s" by (simp add: grid_wf_def)
  from grid_replace_trace [OF assms(3) h r] h(1) show ?thesis by simp
qed

theorem grid_replacement_disposes_previous_witness:
  "root_in_scene empty_scene (Some tracking_options)
   \<and> grid_tracked_once
       = run OccupancyGridClient_deliver (OccupancyGridClient empty_scene (Some tracking_options))
           [grid_message]
   \<and> currentGrid grid_tracked_once = Some 2
   \<and> sceneNode grid_tracked_once = Some 3
   \<and> trace (state_of (OccupancyGridClient_processMessage grid_tracked_once grid_message))
       = trace grid_tracked_once @ [Detached 3 2, Dispose 2, Attached 3 4, Emit ''change'']"
proof -
  have h1: "root_in_scene empty_scene (Some tracking_options)"
    by (simp add: root_in_scene_def options_or_empty_def tracking_options_def no_options_def)
  have h2: "grid_tracked_once
       = run OccupancyGridClient_deliver (OccupancyGridClient empty_scene (Some tracking_options))
           [grid_message]"
    by (simp add: grid_tracked_once_def run_def)
  have h3: "currentGrid grid_tracked_once = Some 2" by (simp add: grid_tracked_once_state)
  have k: "sceneNode grid_tracked_once = Some 3" "kids grid_tracked_once 3 = [2]"
    "truthy (tfClient grid_tracked_once)" "next_ref grid_tracked_once = 4"
    by (simp_all add: grid_tracked_once_state)
  from grid_replacement_disposes_previous [OF h1 h2 h3, of grid_message] k
  have "trace (state_of (OccupancyGridClient_processMessage grid_tracked_once grid_message))
       = trace grid_tracked_once @ [Detached 3 2, Dispose 2, Attached 3 4, Emit ''change'']"
    by auto
  with h1 h2 h3 k show ?thesis by blast
qed

end
